(* ===== verification/Prelude.thy ===== *)
theory Prelude
  imports Main "HOL-Library.Sublist"
begin

text \<open>
  The JavaScript built-ins that \<open>src/app/components/PromptGenerator.tsx\<close> calls, as
  executable HOL functions over \<open>string\<close> (\<open>char list\<close>), and the lemmas on them that
  the component theories share.  A \<open>char\<close> stands for one UTF-16 code unit of the
  Latin-1 range (0--255): whitespace is the set \<open>\s\<close> of ECMAScript restricted to
  that range, and the case mappings are those of \<open>String.prototype.toLowerCase\<close> and
  \<open>toUpperCase\<close> on it (the two code units whose upper case lies outside Latin-1,
  \<open>\<mu>\<close> (181) and \<open>y\<close>-diaeresis (255), are left unchanged).  A JavaScript number that
  the code only clamps and counts with is an \<open>int\<close> or \<open>NaN\<close> (\<open>js_num\<close>).
\<close>

named_theorems js_simps \<open>characteristic equations of the JavaScript built-ins\<close>

section \<open>Whitespace, trim, split and join\<close>

definition js_is_space :: "char \<Rightarrow> bool" where
  "js_is_space c \<longleftrightarrow> of_char c \<in> {9, 10, 11, 12, 13, 32, 160 :: nat}"

definition js_trim :: "string \<Rightarrow> string" where
  "js_trim s = rev (dropWhile js_is_space (rev (dropWhile js_is_space s)))"

text \<open>\<open>s.split(/\s+/)\<close>: the fields between maximal runs of whitespace; a leading
  (trailing) run gives an empty first (last) field, and \<open>''''.split(/\s+/)\<close> is \<open>['''']\<close>.\<close>

function js_split_ws :: "string \<Rightarrow> string list" where
  "js_split_ws s =
     (let w = takeWhile (\<lambda>c. \<not> js_is_space c) s;
          r = dropWhile (\<lambda>c. \<not> js_is_space c) s
      in if r = [] then [w] else w # js_split_ws (dropWhile js_is_space r))"
  by pat_completeness auto
termination
proof (relation "measure length")
  fix s r
  assume r: "r = dropWhile (\<lambda>c. \<not> js_is_space c) s" and ne: "r \<noteq> []"
  from ne obtain c cs where rc: "r = c # cs" by (meson neq_Nil_conv)
  with r have "dropWhile (\<lambda>c. \<not> js_is_space c) s = c # cs" by simp
  then have "js_is_space c" by (simp add: dropWhile_eq_Cons_conv)
  then have "length (dropWhile js_is_space r) \<le> length cs"
    using rc by (simp add: length_dropWhile_le)
  moreover have "length r \<le> length s" using r by (simp add: length_dropWhile_le)
  ultimately show "(dropWhile js_is_space r, s) \<in> measure length"
    using rc by simp
qed simp

text \<open>\<open>xs.join(sep)\<close>.\<close>

fun js_join :: "string \<Rightarrow> string list \<Rightarrow> string" where
  "js_join sep [] = []"
| "js_join sep [x] = x"
| "js_join sep (x # y # xs) = x @ sep @ js_join sep (y # xs)"

text \<open>\<open>s.replace(/\s+/g, '''')\<close>: every whitespace run replaced by nothing.\<close>

definition js_strip_ws :: "string \<Rightarrow> string" where
  "js_strip_ws s = filter (\<lambda>c. \<not> js_is_space c) s"

section \<open>Case mapping\<close>

definition js_lower_char :: "char \<Rightarrow> char" where
  "js_lower_char c =
     (let n = of_char c :: nat
      in if (65 \<le> n \<and> n \<le> 90) \<or> (192 \<le> n \<and> n \<le> 222 \<and> n \<noteq> 215) then char_of (n + 32) else c)"

definition js_lower :: "string \<Rightarrow> string" where
  "js_lower s = map js_lower_char s"

text \<open>\<open>c.toUpperCase()\<close> of a one-character string: a string, since sharp s (223)
  becomes \<open>''SS''\<close>.\<close>

definition js_upper_char :: "char \<Rightarrow> string" where
  "js_upper_char c =
     (let n = of_char c :: nat
      in if (97 \<le> n \<and> n \<le> 122) \<or> (224 \<le> n \<and> n \<le> 254 \<and> n \<noteq> 247) then [char_of (n - 32)]
         else if n = 223 then ''SS'' else [c])"

section \<open>Regular-expression test of an alternation of literals\<close>

text \<open>\<open>/(k1|k2|...)/.test(t)\<close>: the matcher tries every start position of \<open>t\<close> in
  turn and, at each, every alternative in order; the test succeeds when one matches.\<close>

fun js_regex_test :: "string list \<Rightarrow> string \<Rightarrow> bool" where
  "js_regex_test kws [] = list_ex (\<lambda>kw. kw = []) kws"
| "js_regex_test kws (c # cs) = (list_ex (\<lambda>kw. prefix kw (c # cs)) kws \<or> js_regex_test kws cs)"

section \<open>Numbers\<close>

datatype js_num = JNum int | JNaN

text \<open>\<open>Math.max\<close> and \<open>Math.min\<close>: \<open>NaN\<close> if either argument is.\<close>

fun js_max :: "js_num \<Rightarrow> js_num \<Rightarrow> js_num" where
  "js_max (JNum a) (JNum b) = JNum (max a b)"
| "js_max _ _ = JNaN"

fun js_min :: "js_num \<Rightarrow> js_num \<Rightarrow> js_num" where
  "js_min (JNum a) (JNum b) = JNum (min a b)"
| "js_min _ _ = JNaN"

text \<open>\<open>ToLength\<close>, as \<open>Array.from({length: v})\<close> applies it: \<open>NaN\<close> and negatives are 0.\<close>

fun js_to_length :: "js_num \<Rightarrow> nat" where
  "js_to_length JNaN = 0"
| "js_to_length (JNum i) = nat (min i (2 ^ 53 - 1))"

definition js_is_digit :: "char \<Rightarrow> bool" where
  "js_is_digit c \<longleftrightarrow> (48::nat) \<le> of_char c \<and> (of_char c :: nat) \<le> 57"

definition js_digits_value :: "string \<Rightarrow> nat" where
  "js_digits_value ds = foldl (\<lambda>acc c. 10 * acc + (of_char c - 48)) 0 ds"

text \<open>\<open>parseInt(str, 10)\<close>: leading whitespace skipped, an optional sign, then the
  longest run of decimal digits; no digit at all is \<open>NaN\<close>.\<close>

definition js_parse_int :: "string \<Rightarrow> js_num" where
  "js_parse_int str =
     (let s = dropWhile js_is_space str;
          neg = (s \<noteq> [] \<and> hd s = CHR ''-'');
          r = (if s \<noteq> [] \<and> (hd s = CHR ''-'' \<or> hd s = CHR ''+'') then tl s else s);
          z = takeWhile js_is_digit r
      in if z = [] then JNaN
         else JNum ((if neg then -1 else 1) * int (js_digits_value z)))"

text \<open>\<open>s.split(",")[0]\<close>: the text before the first separator (all of \<open>s\<close> if
  there is none).\<close>

definition js_split_first :: "char \<Rightarrow> string \<Rightarrow> string" where
  "js_split_first sep s = takeWhile (\<lambda>c. c \<noteq> sep) s"

text \<open>\<open>String(n)\<close> of a non-negative integer: its decimal digits.\<close>

fun js_nat_str :: "nat \<Rightarrow> string" where
  "js_nat_str n =
     (if n < 10 then [char_of (48 + n)] else js_nat_str (n div 10) @ [char_of (48 + n mod 10)])"

text \<open>\<open>String(i)\<close> of an integer, as React renders the number \<open>value\<close> of an input.\<close>

definition js_int_str :: "int \<Rightarrow> string" where
  "js_int_str i = (if i < 0 then CHR ''-'' # js_nat_str (nat (- i)) else js_nat_str (nat i))"

text \<open>A word of a title: non-empty and free of whitespace.\<close>

definition js_word :: "string \<Rightarrow> bool" where
  "js_word w \<longleftrightarrow> w \<noteq> [] \<and> (\<forall>c\<in>set w. \<not> js_is_space c)"

declare js_split_ws.simps [simp del] js_nat_str.simps [simp del]

section \<open>Lemmas on the built-ins\<close>

lemma js_regex_test_iff_sublist [js_simps]:
  "js_regex_test kws t \<longleftrightarrow> (\<exists>kw\<in>set kws. sublist kw t)"
  by (induction t) (auto simp: list_ex_iff sublist_Cons_right)

lemma js_split_ws_unfold:
  "js_split_ws s =
     (if dropWhile (\<lambda>c. \<not> js_is_space c) s = [] then [takeWhile (\<lambda>c. \<not> js_is_space c) s]
      else takeWhile (\<lambda>c. \<not> js_is_space c) s
           # js_split_ws (dropWhile js_is_space (dropWhile (\<lambda>c. \<not> js_is_space c) s)))"
  by (subst js_split_ws.simps) (simp add: Let_def)

lemma js_split_ws_last:
  "dropWhile (\<lambda>c. \<not> js_is_space c) s = [] \<Longrightarrow>
   js_split_ws s = [takeWhile (\<lambda>c. \<not> js_is_space c) s]"
  by (subst js_split_ws_unfold [of s]) (rule if_P)

lemma js_split_ws_more:
  "dropWhile (\<lambda>c. \<not> js_is_space c) s \<noteq> [] \<Longrightarrow>
   js_split_ws s = takeWhile (\<lambda>c. \<not> js_is_space c) s
     # js_split_ws (dropWhile js_is_space (dropWhile (\<lambda>c. \<not> js_is_space c) s))"
  by (subst js_split_ws_unfold [of s]) (rule if_not_P)

lemma js_split_ws_word [js_simps]: "js_word w \<Longrightarrow> js_split_ws w = [w]"
  by (subst js_split_ws_unfold) (simp add: js_word_def)

lemma js_split_ws_word_space:
  assumes "\<forall>c\<in>set w. \<not> js_is_space c" and "rest = [] \<or> \<not> js_is_space (hd rest)"
  shows "js_split_ws (w @ CHR '' '' # rest) = w # js_split_ws rest"
proof -
  have sp: "js_is_space (CHR '' '')" by (simp add: js_is_space_def)
  have "dropWhile js_is_space rest = rest"
    using assms(2) by (cases rest) auto
  with assms(1) sp show ?thesis
    by (subst js_split_ws_unfold) (simp add: takeWhile_append2 dropWhile_append2)
qed

lemma js_join_words_hd:
  "ws \<noteq> [] \<Longrightarrow> \<forall>w\<in>set ws. js_word w \<Longrightarrow>
   js_join sep ws \<noteq> [] \<and> hd (js_join sep ws) = hd (hd ws)"
  by (induction sep ws rule: js_join.induct) (auto simp: js_word_def)

lemma js_split_ws_join [js_simps]:
  "ws \<noteq> [] \<Longrightarrow> \<forall>w\<in>set ws. js_word w \<Longrightarrow> js_split_ws (js_join '' '' ws) = ws"
proof (induction "'' ''" ws rule: js_join.induct)
  case (2 x)
  then show ?case by (simp add: js_split_ws_word)
next
  case (3 x y xs)
  have "js_join '' '' (y # xs) \<noteq> [] \<and> hd (js_join '' '' (y # xs)) = hd y"
    using js_join_words_hd [of "y # xs"] "3.prems" by simp
  moreover have "\<not> js_is_space (hd y)"
    using "3.prems" by (cases y) (auto simp: js_word_def)
  ultimately show ?case
    using 3 by (simp add: js_split_ws_word_space js_word_def)
qed simp


lemma ball_set_dropWhile_iff: "(\<forall>x\<in>set (dropWhile P xs). P x) \<longleftrightarrow> (\<forall>x\<in>set xs. P x)"
  by (induction xs) auto

lemma js_trim_Nil_iff [js_simps]: "js_trim s = [] \<longleftrightarrow> (\<forall>c\<in>set s. js_is_space c)"
  by (simp add: js_trim_def dropWhile_eq_Nil_conv ball_set_dropWhile_iff)

lemma js_trim_ends:
  assumes "js_trim s \<noteq> []"
  shows "\<not> js_is_space (hd (js_trim s)) \<and> \<not> js_is_space (last (js_trim s))"
proof -
  let ?d = "dropWhile js_is_space s"
  have "\<not> js_is_space (last (js_trim s))"
    using assms hd_dropWhile [of js_is_space "rev ?d"]
    by (simp add: js_trim_def hd_rev [symmetric])
  moreover have "?d \<noteq> []"
    using assms by (auto simp: js_trim_def dest: set_dropWhileD)
  moreover have "\<not> js_is_space (hd ?d)"
    using \<open>?d \<noteq> []\<close> by (rule hd_dropWhile)
  moreover have "hd (js_trim s) = hd ?d"
  proof -
    obtain c cs where "?d = c # cs" using \<open>?d \<noteq> []\<close> by (meson neq_Nil_conv)
    then show ?thesis using \<open>\<not> js_is_space (hd ?d)\<close>
      by (simp add: js_trim_def dropWhile_append)
  qed
  ultimately show ?thesis by simp
qed

lemma js_split_ws_no_space:
  "w \<in> set (js_split_ws s) \<Longrightarrow> c \<in> set w \<Longrightarrow> \<not> js_is_space c"
proof (induction s rule: js_split_ws.induct)
  case (1 s)
  then show ?case
    by (subst (asm) js_split_ws_unfold) (auto split: if_splits dest: set_takeWhileD)
qed

lemma js_split_ws_words:
  "s \<noteq> [] \<Longrightarrow> \<not> js_is_space (hd s) \<Longrightarrow> \<not> js_is_space (last s) \<Longrightarrow>
   w \<in> set (js_split_ws s) \<Longrightarrow> js_word w"
proof (induction s rule: js_split_ws.induct)
  case (1 s)
  let ?w = "takeWhile (\<lambda>c. \<not> js_is_space c) s"
  let ?r = "dropWhile (\<lambda>c. \<not> js_is_space c) s"
  let ?t = "dropWhile js_is_space ?r"
  have w_ne: "?w \<noteq> []"
    using "1.prems"(1,2) by (cases s) simp_all
  have w_in: "w \<in> set (js_split_ws s)" by (rule "1.prems"(4))
  then have w_sp: "\<forall>c\<in>set w. \<not> js_is_space c"
    using js_split_ws_no_space by blast
  show ?case
  proof (cases "?r = []")
    case True
    from w_in have "w = ?w" by (simp add: js_split_ws_last [OF True])
    with w_ne w_sp show ?thesis by (simp add: js_word_def)
  next
    case False
    have "last s = last (?w @ ?r)" by (simp only: takeWhile_dropWhile_id)
    also have "\<dots> = last ?r" using False by (rule last_appendR)
    finally have last_r: "last ?r = last s" by simp
    have "last ?r \<in> set ?r" using False by (rule last_in_set)
    moreover have "\<not> js_is_space (last ?r)" using last_r "1.prems"(3) by simp
    ultimately have "\<exists>c\<in>set ?r. \<not> js_is_space c" by (intro bexI)
    then have t_ne: "?t \<noteq> []" by (simp add: dropWhile_eq_Nil_conv)
    have t_hd: "\<not> js_is_space (hd ?t)" using t_ne by (rule hd_dropWhile)
    have "last ?r = last (takeWhile js_is_space ?r @ ?t)" by (simp only: takeWhile_dropWhile_id)
    also have "\<dots> = last ?t" using t_ne by (rule last_appendR)
    finally have t_last: "\<not> js_is_space (last ?t)" using last_r "1.prems"(3) by simp
    from w_in have "w = ?w \<or> w \<in> set (js_split_ws ?t)"
      by (simp only: js_split_ws_more [OF False] list.set insert_iff)
    then show ?thesis
    proof
      assume "w = ?w"
      with w_ne w_sp show ?thesis by (simp add: js_word_def)
    next
      assume "w \<in> set (js_split_ws ?t)"
      with "1.IH" [OF refl refl False t_ne t_hd t_last] show ?thesis by simp
    qed
  qed
qed

lemma js_upper_char_ne [simp]: "js_upper_char c \<noteq> []"
  by (simp add: js_upper_char_def Let_def)

lemma js_upper_char_idem:
  "js_upper_char (hd (js_upper_char c)) = [hd (js_upper_char c)]"
proof -
  have n: "of_char c < (256::nat)" by simp
  show ?thesis
    using n by (auto simp add: js_upper_char_def Let_def)
qed

lemma js_upper_char_no_space:
  "\<not> js_is_space c \<Longrightarrow> d \<in> set (js_upper_char c) \<Longrightarrow> \<not> js_is_space d"
  using nat_of_char_less_256 [of c]
  by (auto simp add: js_upper_char_def js_is_space_def Let_def split: if_splits)

lemma js_lower_char_idem: "js_lower_char (js_lower_char c) = js_lower_char c"
  using nat_of_char_less_256 [of c]
  by (auto simp add: js_lower_char_def Let_def)


lemma js_join_words_last:
  "ws \<noteq> [] \<Longrightarrow> \<forall>w\<in>set ws. js_word w \<Longrightarrow> last (js_join sep ws) = last (last ws)"
  by (induction sep ws rule: js_join.induct) (auto simp: js_word_def js_join_words_hd)

lemma js_trim_id:
  "s \<noteq> [] \<Longrightarrow> \<not> js_is_space (hd s) \<Longrightarrow> \<not> js_is_space (last s) \<Longrightarrow> js_trim s = s"
proof -
  assume ne: "s \<noteq> []" and h: "\<not> js_is_space (hd s)" and l: "\<not> js_is_space (last s)"
  obtain c cs where s: "s = c # cs" using ne by (meson neq_Nil_conv)
  obtain d ds where r: "rev s = d # ds" using ne by (cases "rev s") auto
  have "dropWhile js_is_space s = s" using s h by simp
  moreover have "d = last s" using r by (metis last_rev list.sel(1) rev_rev_ident)
  then have "\<not> js_is_space d" using l by simp
  then have "dropWhile js_is_space (d # ds) = d # ds" by simp
  then have "dropWhile js_is_space (rev s) = rev s" by (simp only: r)
  ultimately show ?thesis by (simp add: js_trim_def)
qed

lemma js_join_words_trim:
  "ws \<noteq> [] \<Longrightarrow> \<forall>w\<in>set ws. js_word w \<Longrightarrow> js_trim (js_join sep ws) = js_join sep ws"
proof -
  assume ne: "ws \<noteq> []" and w: "\<forall>w\<in>set ws. js_word w"
  have "last ws \<in> set ws" using ne by simp
  then have "js_word (last ws)" using w by blast
  then have "\<not> js_is_space (last (last ws))" by (auto simp: js_word_def)
  moreover have "\<not> js_is_space (hd (hd ws))"
    using ne w by (cases ws) (auto simp: js_word_def)
  ultimately show ?thesis
    using ne w js_join_words_hd [OF ne w] js_join_words_last [OF ne w]
    by (simp add: js_trim_id)
qed

lemma set_js_join: "set (js_join sep xs) \<subseteq> set sep \<union> \<Union> (set ` set xs)"
  by (induction sep xs rule: js_join.induct) auto

lemma js_trim_idem: "js_trim (js_trim s) = js_trim s"
proof (cases "js_trim s = []")
  case True
  then show ?thesis by (simp only: True) (simp add: js_trim_def)
next
  case False
  then show ?thesis using js_trim_ends [OF False] by (simp add: js_trim_id)
qed

lemma js_nat_str_digits: "c \<in> set (js_nat_str n) \<Longrightarrow> js_is_digit c"
proof (induction n rule: js_nat_str.induct)
  case (1 n)
  have d: "k < 10 \<Longrightarrow> js_is_digit (char_of (48 + k))" for k :: nat
    by (simp add: js_is_digit_def)
  show ?case
  proof (cases "n < 10")
    case True
    then show ?thesis using "1.prems" d by (simp add: js_nat_str.simps [of n])
  next
    case False
    then have "c \<in> set (js_nat_str (n div 10)) \<or> c = char_of (48 + n mod 10)"
      using "1.prems" by (auto simp add: js_nat_str.simps [of n])
    then show ?thesis using "1.IH" False d by auto
  qed
qed

lemma js_nat_str_ne [simp]: "js_nat_str n \<noteq> []"
  by (simp add: js_nat_str.simps [of n])

lemma js_digits_value_snoc:
  "js_digits_value (ds @ [c]) = 10 * js_digits_value ds + (of_char c - 48)"
  by (simp add: js_digits_value_def)

lemma js_digits_value_nat_str: "js_digits_value (js_nat_str n) = n"
proof (induction n rule: js_nat_str.induct)
  case (1 n)
  show ?case
  proof (cases "n < 10")
    case True
    then show ?thesis by (simp add: js_nat_str.simps [of n] js_digits_value_def)
  next
    case False
    then show ?thesis
      using "1.IH" by (simp add: js_nat_str.simps [of n] js_digits_value_snoc)
  qed
qed

lemma js_digit_not_space: "js_is_digit c \<Longrightarrow> \<not> js_is_space c"
  by (auto simp: js_is_digit_def js_is_space_def)

lemma js_digit_not_sign: "js_is_digit c \<Longrightarrow> c \<noteq> CHR ''-'' \<and> c \<noteq> CHR ''+''"
  by (auto simp: js_is_digit_def)

lemma js_parse_int_digits:
  assumes ne: "ds \<noteq> []" and d: "\<forall>c\<in>set ds. js_is_digit c"
  shows "js_parse_int ds = JNum (int (js_digits_value ds))"
proof -
  obtain c cs where ds: "ds = c # cs" using ne by (cases ds) auto
  have "\<not> js_is_space c" "c \<noteq> CHR ''-''" "c \<noteq> CHR ''+''"
    using d ds js_digit_not_space js_digit_not_sign by auto
  moreover have "takeWhile js_is_digit ds = ds" using d by (simp add: takeWhile_eq_all_conv)
  ultimately show ?thesis using ds by (simp add: js_parse_int_def)
qed

text \<open>Printing an integer and parsing it back with \<open>parseInt(_, 10)\<close> gives the integer.\<close>

lemma js_parse_int_int_str: "js_parse_int (js_int_str i) = JNum i"
proof -
  have d: "\<forall>c\<in>set (js_nat_str n). js_is_digit c" for n using js_nat_str_digits by blast
  show ?thesis
  proof (cases "i < 0")
    case True
    have "\<not> js_is_space (CHR ''-'')" by (simp add: js_is_space_def)
    moreover have tw: "takeWhile js_is_digit (js_nat_str (nat (- i))) = js_nat_str (nat (- i))"
      using d by (simp add: takeWhile_eq_all_conv)
    ultimately show ?thesis using True
      by (simp add: js_int_str_def js_parse_int_def tw js_digits_value_nat_str)
  next
    case False
    then show ?thesis using js_parse_int_digits [OF js_nat_str_ne d] js_digits_value_nat_str
      by (simp add: js_int_str_def)
  qed
qed

lemma filter_dropWhile_same: "filter (\<lambda>c. \<not> P c) (dropWhile P xs) = filter (\<lambda>c. \<not> P c) xs"
  by (induction xs) auto

lemma js_lower_eq: "js_lower = map js_lower_char"
  by (rule ext) (simp add: js_lower_def)

lemma js_strip_ws_trim: "js_strip_ws (js_trim s) = js_strip_ws s"
  by (simp add: js_strip_ws_def js_trim_def rev_filter [symmetric] filter_dropWhile_same)

lemma js_strip_ws_split: "concat (js_split_ws s) = js_strip_ws s"
proof (induction s rule: js_split_ws.induct)
  case (1 s)
  let ?w = "takeWhile (\<lambda>c. \<not> js_is_space c) s" and ?r = "dropWhile (\<lambda>c. \<not> js_is_space c) s"
  have s: "s = ?w @ ?r" by simp
  have w: "js_strip_ws ?w = ?w" by (auto simp: js_strip_ws_def filter_id_conv dest: set_takeWhileD)
  show ?case
  proof (cases "?r = []")
    case True
    then have "\<forall>x\<in>set s. \<not> js_is_space x" by simp
    then show ?thesis using True
      by (simp add: js_split_ws_last js_strip_ws_def filter_id_conv takeWhile_eq_all_conv)
  next
    case False
    have "js_strip_ws ?r = js_strip_ws (dropWhile js_is_space ?r)"
      by (simp add: js_strip_ws_def filter_dropWhile_same)
    moreover have "js_strip_ws (?w @ ?r) = ?w @ js_strip_ws ?r"
      using w unfolding js_strip_ws_def filter_append by (simp only:)
    then have "js_strip_ws s = ?w @ js_strip_ws ?r" by (simp only: takeWhile_dropWhile_id)
    ultimately show ?thesis using "1.IH" [OF refl refl False] False
      by (simp add: js_split_ws_more)
  qed
qed

lemma js_strip_ws_join_space:
  "\<forall>w\<in>set ws. \<forall>c\<in>set w. \<not> js_is_space c \<Longrightarrow> js_strip_ws (js_join '' '' ws) = concat ws"
  by (induction "'' ''" ws rule: js_join.induct)
     (auto simp: js_strip_ws_def js_is_space_def filter_id_conv)

lemma js_lower_upper_char: "c \<noteq> CHR 0xDF \<Longrightarrow> js_lower (js_upper_char c) = [js_lower_char c]"
proof -
  assume c: "c \<noteq> CHR 0xDF"
  have n: "of_char c < (256::nat)" by simp
  have d: "of_char (CHR 0xDF) = (223::nat)" by simp
  have "of_char c \<noteq> (223::nat)"
    using c d of_char_eq_iff [of c "CHR 0xDF"] by simp
  with n show ?thesis by (auto simp: js_upper_char_def js_lower_char_def js_lower_def Let_def)
qed

end
