(* ===== verification/Classifier.thy ===== *)
theory Classifier
  imports Prelude
begin

text \<open>
  The two classifiers of PromptGenerator.tsx: \<open>inferMood\<close> (lines 49--56) and
  \<open>inferStyle\<close> (lines 58--66) lower-case the topic and run an if-chain of regular
  expressions \<open>/(k1|...|kn)/.test(t)\<close>, first match wins.  They are modelled as the
  code writes them, an if-chain over \<open>js_regex_test\<close>.  The abstract specification is
  an ordered table of (keywords, descriptor) rules read by \<open>first_match\<close>; the
  lemmas show that each classifier refines its table (a keyword anywhere in the
  lower-cased topic, also inside a longer word, selects its rule), that \<open>neon\<close> always
  gives the moody descriptor, and that the \<open>neon\<close> alternative of the third mood rule
  can never fire.
\<close>

section \<open>The code\<close>

definition inferMood :: "string \<Rightarrow> string" where
  "inferMood topic =
     (let t = js_lower topic
      in if js_regex_test [''storm'', ''war'', ''night'', ''neon'', ''noir'', ''revenge'', ''betrayal'', ''loss''] t
           then ''moody, dramatic, tension''
         else if js_regex_test [''sunrise'', ''spring'', ''child'', ''smile'', ''peace'', ''home'', ''ocean'', ''breeze''] t
           then ''warm, hopeful, gentle''
         else if js_regex_test [''future'', ''cyber'', ''city'', ''neon'', ''tech'', ''robot''] t
           then ''cool, futuristic, surreal''
         else if js_regex_test [''journey'', ''mountain'', ''forest'', ''desert'', ''wild''] t
           then ''epic, adventurous, cinematic''
         else ''cinematic, emotional, immersive'')"

definition inferStyle :: "string \<Rightarrow> string" where
  "inferStyle topic =
     (let t = js_lower topic
      in if js_regex_test [''noir'', ''detective'', ''rain'', ''cigarette'', ''shadow''] t
           then ''film noir, grain, hard contrast''
         else if js_regex_test [''vintage'', ''retro'', ''70s'', ''80s''] t
           then ''vintage film, soft bloom, subtle grain''
         else if js_regex_test [''anime'', ''manga'', ''ghibli''] t
           then ''anime-inspired, painterly, soft light''
         else if js_regex_test [''nature'', ''wild'', ''ocean'', ''forest'', ''mountain''] t
           then ''naturalistic, sweeping, high dynamic range''
         else if js_regex_test [''space'', ''cyber'', ''neon'', ''future''] t
           then ''neo-futuristic, neon, reflective surfaces''
         else ''cinematic realism, shallow depth, widescreen'')"

section \<open>The specification: ordered keyword rules, first match wins\<close>

type_synonym rule = "string list \<times> string"

fun first_match :: "rule list \<Rightarrow> string \<Rightarrow> string \<Rightarrow> string" where
  "first_match [] dflt t = dflt"
| "first_match ((kws, r) # rules) dflt t =
     (if (\<exists>kw\<in>set kws. sublist kw t) then r else first_match rules dflt t)"

definition mood_rules :: "rule list" where
  "mood_rules =
     [([''storm'', ''war'', ''night'', ''neon'', ''noir'', ''revenge'', ''betrayal'', ''loss''],
       ''moody, dramatic, tension''),
      ([''sunrise'', ''spring'', ''child'', ''smile'', ''peace'', ''home'', ''ocean'', ''breeze''],
       ''warm, hopeful, gentle''),
      ([''future'', ''cyber'', ''city'', ''neon'', ''tech'', ''robot''], ''cool, futuristic, surreal''),
      ([''journey'', ''mountain'', ''forest'', ''desert'', ''wild''], ''epic, adventurous, cinematic'')]"

definition mood_default :: string where
  "mood_default = ''cinematic, emotional, immersive''"

definition style_rules :: "rule list" where
  "style_rules =
     [([''noir'', ''detective'', ''rain'', ''cigarette'', ''shadow''], ''film noir, grain, hard contrast''),
      ([''vintage'', ''retro'', ''70s'', ''80s''], ''vintage film, soft bloom, subtle grain''),
      ([''anime'', ''manga'', ''ghibli''], ''anime-inspired, painterly, soft light''),
      ([''nature'', ''wild'', ''ocean'', ''forest'', ''mountain''], ''naturalistic, sweeping, high dynamic range''),
      ([''space'', ''cyber'', ''neon'', ''future''], ''neo-futuristic, neon, reflective surfaces'')]"

definition style_default :: string where
  "style_default = ''cinematic realism, shallow depth, widescreen''"

text \<open>The mood table with the \<open>neon\<close> alternative of its third rule removed.\<close>

definition mood_rules_pruned :: "rule list" where
  "mood_rules_pruned =
     [hd mood_rules, mood_rules ! 1,
      ([''future'', ''cyber'', ''city'', ''tech'', ''robot''], ''cool, futuristic, surreal''),
      mood_rules ! 3]"

text \<open>The first rule that matches, read off the list of all matching rules.\<close>

lemma first_match_filter:
  "first_match rules dflt t =
     (case filter (\<lambda>(kws, r). \<exists>kw\<in>set kws. sublist kw t) rules of
        [] \<Rightarrow> dflt
      | (kws, r) # _ \<Rightarrow> r)"
  by (induction rules dflt t rule: first_match.induct) auto

lemma first_match_in:
  "first_match rules dflt t \<in> insert dflt (snd ` set rules)"
  by (induction rules dflt t rule: first_match.induct) auto

lemma inferMood_rules: "inferMood topic = first_match mood_rules mood_default (js_lower topic)"
  by (simp add: inferMood_def mood_rules_def mood_default_def Let_def js_regex_test_iff_sublist)

lemma inferStyle_rules: "inferStyle topic = first_match style_rules style_default (js_lower topic)"
  by (simp add: inferStyle_def style_rules_def style_default_def Let_def js_regex_test_iff_sublist)

lemma inferMood_ne: "inferMood topic \<noteq> []"
  by (simp add: inferMood_def Let_def)

lemma inferStyle_ne: "inferStyle topic \<noteq> []"
  by (simp add: inferStyle_def Let_def)

lemma inferMood_no_nl: "CHR ''\<newline>'' \<notin> set (inferMood topic)"
  using first_match_in [of mood_rules mood_default "js_lower topic"]
  by (auto simp: inferMood_rules mood_rules_def mood_default_def)

lemma inferStyle_no_nl: "CHR ''\<newline>'' \<notin> set (inferStyle topic)"
  using first_match_in [of style_rules style_default "js_lower topic"]
  by (auto simp: inferStyle_rules style_rules_def style_default_def)

lemma inferMood_range:
  "inferMood topic \<in> {''cinematic, emotional, immersive'', ''moody, dramatic, tension'',
      ''warm, hopeful, gentle'', ''cool, futuristic, surreal'', ''epic, adventurous, cinematic''}"
  using first_match_in [of mood_rules mood_default "js_lower topic"]
  by (simp only: inferMood_rules mood_rules_def mood_default_def list.set image_insert
      image_empty snd_conv)

text \<open>C7: \<open>inferMood\<close> implements the ordered mood table with first-match-wins
  semantics: its result is the descriptor of the first rule one of whose keywords occurs
  in the lower-cased topic, and the default when no rule matches.\<close>

theorem inferMood_first_rule_wins:
  "inferMood topic =
     (case filter (\<lambda>(kws, r). \<exists>kw\<in>set kws. sublist kw (js_lower topic)) mood_rules of
        [] \<Rightarrow> mood_default
      | (kws, r) # _ \<Rightarrow> r)"
  by (simp only: inferMood_rules first_match_filter)

text \<open>C10: \<open>inferStyle\<close> implements the ordered style table with first-match-wins
  semantics, in the same sense.\<close>

theorem inferStyle_first_rule_wins:
  "inferStyle topic =
     (case filter (\<lambda>(kws, r). \<exists>kw\<in>set kws. sublist kw (js_lower topic)) style_rules of
        [] \<Rightarrow> style_default
      | (kws, r) # _ \<Rightarrow> r)"
  by (simp only: inferStyle_rules first_match_filter)

text \<open>C8: a topic containing \<open>neon\<close> (in any letter case) is classified moody,
  although \<open>neon\<close> also belongs to the lower-priority futuristic rule.\<close>

theorem inferMood_neon:
  "sublist ''neon'' (js_lower topic) \<Longrightarrow> inferMood topic = ''moody, dramatic, tension''"
  by (simp add: inferMood_rules mood_rules_def)

text \<open>C9: the \<open>neon\<close> alternative of the third mood rule is dead code: removing it
  changes the result for no topic.\<close>

theorem inferMood_neon_rule3_dead:
  "inferMood topic = first_match mood_rules_pruned mood_default (js_lower topic)"
proof (cases "sublist ''neon'' (js_lower topic)")
  case True
  then show ?thesis by (simp add: inferMood_rules mood_rules_pruned_def mood_rules_def)
next
  case False
  then show ?thesis by (simp add: inferMood_rules mood_rules_pruned_def mood_rules_def)
qed

theorem inferMood_neon_witness:
  "sublist ''neon'' (js_lower ''Neon Alley'') \<and> inferMood ''Neon Alley'' = ''moody, dramatic, tension''"
proof -
  have h: "sublist ''neon'' (js_lower ''Neon Alley'')" by code_simp
  show ?thesis using h inferMood_neon [OF h] by simp
qed

end
