(* ===== verification/Normalizer.thy ===== *)
theory Normalizer
  imports Prelude
begin

text \<open>
  The Normalizer: \<open>toTitleCase\<close> (PromptGenerator.tsx, lines 41--47) trims the topic,
  splits it at whitespace runs, upper-cases the first character of every word and joins
  the words with single spaces.  The lemmas show that a title is a single-spaced
  sequence of whitespace-free words, that it is empty exactly when the trimmed topic is,
  and that title-casing is idempotent (an already title-cased topic is kept as it is)
  and changes letters only.
\<close>

text \<open>The callback \<open>(w) => w.charAt(0).toUpperCase() + w.slice(1)\<close>.\<close>

definition capitalize_word :: "string \<Rightarrow> string" where
  "capitalize_word w = (case w of [] \<Rightarrow> [] | c # cs \<Rightarrow> js_upper_char c @ cs)"

definition toTitleCase :: "string \<Rightarrow> string" where
  "toTitleCase text = js_join '' '' (map capitalize_word (js_split_ws (js_trim text)))"

lemma capitalize_word_word:
  "js_word w \<Longrightarrow> js_word (capitalize_word w)"
  by (cases w) (auto simp: capitalize_word_def js_word_def dest: js_upper_char_no_space)


text \<open>The words of a non-blank topic: what \<open>toTitleCase\<close> joins.\<close>

lemma title_words:
  assumes "js_trim s \<noteq> []"
  shows "map capitalize_word (js_split_ws (js_trim s)) \<noteq> []"
    and "\<forall>w\<in>set (map capitalize_word (js_split_ws (js_trim s))). js_word w"
proof -
  show "map capitalize_word (js_split_ws (js_trim s)) \<noteq> []"
    by (subst js_split_ws_unfold) simp
  have "\<forall>w\<in>set (js_split_ws (js_trim s)). js_word w"
    using assms js_trim_ends [OF assms] js_split_ws_words by blast
  then show "\<forall>w\<in>set (map capitalize_word (js_split_ws (js_trim s))). js_word w"
    by (simp add: capitalize_word_word)
qed

lemma toTitleCase_blank: "js_trim s = [] \<Longrightarrow> toTitleCase s = []"
  by (simp add: toTitleCase_def js_split_ws_last capitalize_word_def)

lemma toTitleCase_Nil_iff: "toTitleCase s = [] \<longleftrightarrow> js_trim s = []"
proof
  assume "toTitleCase s = []"
  then show "js_trim s = []"
    using title_words js_join_words_hd unfolding toTitleCase_def by blast
qed (rule toTitleCase_blank)

lemma toTitleCase_words:
  assumes "js_trim s \<noteq> []"
  shows "toTitleCase s = js_join '' '' (map capitalize_word (js_split_ws (js_trim s)))"
    and "js_split_ws (toTitleCase s) = map capitalize_word (js_split_ws (js_trim s))"
    and "js_trim (toTitleCase s) = toTitleCase s"
proof -
  let ?ws = "map capitalize_word (js_split_ws (js_trim s))"
  show "toTitleCase s = js_join '' '' ?ws" by (simp add: toTitleCase_def)
  then show "js_split_ws (toTitleCase s) = ?ws" and "js_trim (toTitleCase s) = toTitleCase s"
    using title_words [OF assms] by (simp_all add: js_split_ws_join js_join_words_trim)
qed

lemma toTitleCase_chars:
  "c \<in> set (toTitleCase s) \<Longrightarrow> c = CHR '' '' \<or> \<not> js_is_space c"
proof (cases "js_trim s = []")
  case False
  assume c: "c \<in> set (toTitleCase s)"
  let ?ws = "map capitalize_word (js_split_ws (js_trim s))"
  have "c \<in> set '' '' \<union> \<Union> (set ` set ?ws)"
    using c set_js_join [of "'' ''" ?ws] toTitleCase_words(1) [OF False] by auto
  then show ?thesis using title_words(2) [OF False] by (auto simp: js_word_def)
qed (simp add: toTitleCase_blank)

text \<open>Title-casing changes letters only: with whitespace removed and lower-cased, the
  title is the topic (sharp s apart, which upper-cases to \<open>SS\<close>).\<close>

lemma js_lower_capitalize_word:
  assumes "CHR 0xDF \<notin> set w"
  shows "js_lower (capitalize_word w) = js_lower w"
proof (cases w)
  case (Cons c cs)
  then have "c \<noteq> CHR 0xDF" using assms by auto
  then show ?thesis
    using Cons js_lower_upper_char [of c] by (simp add: capitalize_word_def js_lower_def)
qed (simp add: capitalize_word_def)

lemma toTitleCase_lower_strip:
  assumes "CHR 0xDF \<notin> set s"
  shows "js_lower (js_strip_ws (toTitleCase s)) = js_lower (js_strip_ws s)"
proof -
  let ?ws = "js_split_ws (js_trim s)"
  have sub: "set (concat ?ws) \<subseteq> set s"
    unfolding js_strip_ws_split js_strip_ws_trim by (auto simp: js_strip_ws_def)
  have nsp: "\<forall>w\<in>set (map capitalize_word ?ws). \<forall>c\<in>set w. \<not> js_is_space c"
    using js_split_ws_no_space
    by (fastforce simp: capitalize_word_def dest: js_upper_char_no_space split: list.splits)
  have "js_lower (concat (map capitalize_word ?ws)) = js_lower (concat ?ws)"
  proof -
    have "\<forall>w\<in>set ?ws. js_lower (capitalize_word w) = js_lower w"
      using sub assms by (auto intro!: js_lower_capitalize_word)
    then have "concat (map (\<lambda>w. js_lower (capitalize_word w)) ?ws) = concat (map js_lower ?ws)"
      by (intro arg_cong [where f = concat] map_cong) auto
    then show ?thesis by (simp add: js_lower_eq map_concat comp_def)
  qed
  then show ?thesis
    using js_strip_ws_join_space [OF nsp] js_strip_ws_split [of "js_trim s"] js_strip_ws_trim [of s]
    by (simp add: toTitleCase_def)
qed


text \<open>C6: the title is empty exactly when the topic is blank; otherwise its words are
  the words of the trimmed topic, each with its first character upper-cased, every word
  non-empty and whitespace-free, joined by single spaces: \<open>toTitleCase\<close> trims the
  topic and collapses every whitespace run.\<close>

theorem toTitleCase_normal_form:
  "(toTitleCase s = [] \<longleftrightarrow> js_trim s = []) \<and>
   (js_trim s \<noteq> [] \<longrightarrow>
      js_split_ws (toTitleCase s) = map capitalize_word (js_split_ws (js_trim s)) \<and>
      (\<forall>w\<in>set (js_split_ws (toTitleCase s)). js_word w) \<and>
      js_join '' '' (js_split_ws (toTitleCase s)) = toTitleCase s)"
  using toTitleCase_Nil_iff [of s] toTitleCase_words [of s] title_words [of s] by auto

theorem toTitleCase_normal_form_witness:
  "js_trim '' city   lights '' \<noteq> [] \<and>
   js_split_ws (toTitleCase '' city   lights '') = [''City'', ''Lights'']"
proof -
  have ne: "js_trim '' city   lights '' \<noteq> []" by code_simp
  have m: "map capitalize_word (js_split_ws (js_trim '' city   lights '')) = [''City'', ''Lights'']"
    by code_simp
  show ?thesis using ne m toTitleCase_normal_form [of "'' city   lights ''"] by simp
qed

end
