(* ===== verification/Scenes.thy ===== *)
theory Scenes
  imports Normalizer
begin

text \<open>
  The SceneComposer: \<open>buildScenes\<close> (PromptGenerator.tsx, lines 68--124) title-cases
  the topic, instantiates the catalog of five scene templates with it (the title goes
  into the \<open>setting\<close> field only) and builds \<open>Array.from({length: sceneCount})\<close> scenes,
  scene \<open>i\<close> being \<open>{index: i + 1, ...templates[i % 5]}\<close>.  A scene is the record
  \<open>scene\<close> of the type \<open>GeneratedOutput["scenes"]\<close> (lines 18--28); a template is the
  same record without \<open>index\<close>.  The lemmas give the length of the result, the
  1-based indices, the catalog entry of every position, and that a shorter request gives
  a prefix of a longer one.
\<close>

record scene_template =
  setting :: string
  cameraAngle :: string
  cameraMovement :: string
  actions :: string
  lighting :: string
  colors :: string
  atmosphere :: string
  importantObjects :: string

record scene =
  index :: nat
  scene_setting :: string
  scene_cameraAngle :: string
  scene_cameraMovement :: string
  scene_actions :: string
  scene_lighting :: string
  scene_colors :: string
  scene_atmosphere :: string
  scene_importantObjects :: string

text \<open>The catalog, instantiated with the title \<open>base\<close> (the \<open>templates\<close> array). The
  separators are the literal \<open>?\<close> characters of the source.\<close>

definition scene_templates :: "string \<Rightarrow> scene_template list" where
  "scene_templates base =
     [\<lparr>setting = base @ '' ? Exterior ? Golden Hour'',
       cameraAngle = ''wide establishing shot'',
       cameraMovement = ''slow forward dolly'',
       actions = ''subject enters frame with purpose'',
       lighting = ''soft, warm rim light, long shadows'',
       colors = ''amber, teal accents'',
       atmosphere = ''dust motes, gentle breeze'',
       importantObjects = ''distant landmark, path leading in''\<rparr>,
      \<lparr>setting = base @ '' ? Interior ? Quiet Space'',
       cameraAngle = ''medium over-the-shoulder'',
       cameraMovement = ''subtle handheld drift'',
       actions = ''hands interact with key object'',
       lighting = ''single source window light'',
       colors = ''neutral base with soft highlights'',
       atmosphere = ''hushed, intimate'',
       importantObjects = ''photograph, letter, small relic''\<rparr>,
      \<lparr>setting = base @ '' ? Mid-Action'',
       cameraAngle = ''tracking low angle'',
       cameraMovement = ''dynamic lateral slide'',
       actions = ''decisive movement, reveal of scale'',
       lighting = ''contrast with motivated practicals'',
       colors = ''deep blues, sharp whites'',
       atmosphere = ''energy, motion blur hints'',
       importantObjects = ''moving vehicle, doorway, horizon''\<rparr>,
      \<lparr>setting = base @ '' ? Intimate Close'',
       cameraAngle = ''close-up profile'',
       cameraMovement = ''slow arc to front'',
       actions = ''micro expressions shift, breath visible'',
       lighting = ''soft key, delicate catchlight'',
       colors = ''skin tones, gentle desaturation'',
       atmosphere = ''quiet tension, time slows'',
       importantObjects = ''eyes, fingertips, fabric texture''\<rparr>,
      \<lparr>setting = base @ '' ? Climax / Reveal'',
       cameraAngle = ''high wide tilt down'',
       cameraMovement = ''push-in to stillness'',
       actions = ''revelation held in silence'',
       lighting = ''cool ambient, warm highlight contrast'',
       colors = ''cool base with warm focal point'',
       atmosphere = ''air shimmers, particles rise'',
       importantObjects = ''central symbol, destination, sky''\<rparr>]"

text \<open>\<open>{ index: i + 1, ...tpl }\<close>.\<close>

definition with_index :: "nat \<Rightarrow> scene_template \<Rightarrow> scene" where
  "with_index i tpl =
     \<lparr>index = i, scene_setting = setting tpl, scene_cameraAngle = cameraAngle tpl,
      scene_cameraMovement = cameraMovement tpl, scene_actions = actions tpl,
      scene_lighting = lighting tpl, scene_colors = colors tpl,
      scene_atmosphere = atmosphere tpl, scene_importantObjects = importantObjects tpl\<rparr>"

definition buildScenes :: "string \<Rightarrow> js_num \<Rightarrow> scene list" where
  "buildScenes topic sceneCount =
     (let base = toTitleCase topic;
          templates = scene_templates base
      in map (\<lambda>i. with_index (i + 1) (templates ! (i mod length templates)))
             [0..<js_to_length sceneCount])"

lemma length_scene_templates [simp]: "length (scene_templates base) = 5"
  by (simp add: scene_templates_def)

text \<open>Every template is the topic-free catalog entry with the title put in front of
  its setting.\<close>

lemma scene_templates_subst:
  "k < 5 \<Longrightarrow> scene_templates base ! k =
     (scene_templates [] ! k)\<lparr>setting := base @ setting (scene_templates [] ! k)\<rparr>"
proof -
  assume "k < 5"
  then consider "k = 0" | "k = 1" | "k = 2" | "k = 3" | "k = 4" by linarith
  then show ?thesis by cases (simp_all add: scene_templates_def)
qed

lemma length_buildScenes [simp]: "length (buildScenes topic n) = js_to_length n"
  by (simp add: buildScenes_def Let_def)

lemma nth_buildScenes:
  "i < js_to_length n \<Longrightarrow>
   buildScenes topic n ! i = with_index (i + 1) (scene_templates (toTitleCase topic) ! (i mod 5))"
  by (simp add: buildScenes_def Let_def)

text \<open>C4: scene cycling: the scene at position \<open>i\<close> (0-based) is catalog entry
  \<open>i mod 5\<close> with index \<open>i + 1\<close>, all its fields the catalog literals except the
  setting, which is the title-cased topic followed by the catalog's setting text.\<close>

theorem buildScenes_cycles_catalog:
  "i < length (buildScenes topic n) \<Longrightarrow>
   buildScenes topic n ! i =
     with_index (i + 1)
       ((scene_templates [] ! (i mod 5))
          \<lparr>setting := toTitleCase topic @ setting (scene_templates [] ! (i mod 5))\<rparr>)"
proof -
  assume "i < length (buildScenes topic n)"
  then have "buildScenes topic n ! i =
               with_index (i + 1) (scene_templates (toTitleCase topic) ! (i mod 5))"
    by (simp add: nth_buildScenes)
  then show ?thesis
    using scene_templates_subst [of "i mod 5" "toTitleCase topic"] by simp
qed

text \<open>C17: the scene indices are 1, 2, ..., N in order: sequential positions, not catalog
  indices.\<close>

theorem buildScenes_indices:
  "map index (buildScenes topic n) = [1..<js_to_length n + 1]"
  by (simp add: buildScenes_def Let_def with_index_def comp_def map_Suc_upt)

text \<open>C18: asking for fewer scenes gives a prefix of the longer sequence: the scene at a
  position does not depend on how many scenes were requested.\<close>

theorem buildScenes_prefix:
  "js_to_length k \<le> js_to_length n \<Longrightarrow>
   take (js_to_length k) (buildScenes topic n) = buildScenes topic k"
  by (simp add: buildScenes_def Let_def take_map)

theorem buildScenes_cycles_catalog_witness:
  "6 < length (buildScenes ''rain'' (JNum 7)) \<and>
   buildScenes ''rain'' (JNum 7) ! 6 =
     with_index 7 ((scene_templates [] ! 1)\<lparr>setting := ''Rain'' @ setting (scene_templates [] ! 1)\<rparr>)"
proof -
  have h: "6 < length (buildScenes ''rain'' (JNum 7))" by simp
  have t: "toTitleCase ''rain'' = ''Rain''" by code_simp
  show ?thesis using h buildScenes_cycles_catalog [OF h] t by simp
qed

theorem buildScenes_prefix_witness:
  "js_to_length (JNum 3) \<le> js_to_length (JNum 8) \<and>
   take 3 (buildScenes ''rain'' (JNum 8)) = buildScenes ''rain'' (JNum 3)"
proof -
  have h: "js_to_length (JNum 3) \<le> js_to_length (JNum 8)" by simp
  show ?thesis using h buildScenes_prefix [OF h] by simp
qed

end
