(* ===== verification/Prompt.thy ===== *)
theory Prompt
  imports Scenes
begin

text \<open>
  The PromptAssembler: \<open>buildFullPrompt\<close> (PromptGenerator.tsx, lines 126--146) renders
  every scene as one line (\<open>scene_line\<close>, the \<open>map\<close> callback of lines 128--135),
  joins the scene lines with line breaks and joins the five sections (header, mood and
  style, guidance, scene lines, closing notes) with blank lines.  The reader
  \<open>split_lines\<close> (JavaScript's \<open>s.split("\n")\<close>) takes the prompt apart again; the
  lemmas show that the prompt's lines are exactly the five sections, separated by empty
  lines, with one line per scene, whenever no field contains a line break.
\<close>

definition scene_line :: "scene \<Rightarrow> string" where
  "scene_line s =
     js_join '' ''
       [''Scene '' @ js_nat_str (index s) @ '': '' @ scene_setting s @ ''.'',
        ''Camera: '' @ scene_cameraAngle s @ ''; movement: '' @ scene_cameraMovement s @ ''.'',
        ''Action: '' @ scene_actions s @ ''.'',
        ''Lighting: '' @ scene_lighting s @ ''. Colors: '' @ scene_colors s @ ''.'',
        ''Atmosphere: '' @ scene_atmosphere s @ ''. Objects: '' @ scene_importantObjects s @ ''.'']"

definition buildFullPrompt :: "string \<Rightarrow> string \<Rightarrow> string \<Rightarrow> scene list \<Rightarrow> string" where
  "buildFullPrompt topic mood style scenes =
     (let sceneLines = js_join ''\<newline>'' (map scene_line scenes)
      in js_join ''\<newline>\<newline>''
           [toTitleCase topic @ '' ? cinematic text-to-video prompt'',
            ''Mood: '' @ mood @ ''. Style: '' @ style @ ''.'',
            ''Keep visuals consistent. Short, clear sentences. Focus on what the camera sees.'',
            sceneLines,
            ''Final notes: consistent subject design, steady motion, no flicker, filmic grain, anamorphic bokeh.''])"

text \<open>\<open>s.split("\n")\<close>: the pieces between line breaks.\<close>

fun split_lines :: "string \<Rightarrow> string list" where
  "split_lines [] = [[]]"
| "split_lines (c # cs) =
     (let r = split_lines cs
      in if c = CHR ''\<newline>'' then [] # r else (c # hd r) # tl r)"

text \<open>Consecutive entries with an empty line between them.\<close>

fun with_blank_lines :: "string list \<Rightarrow> string list" where
  "with_blank_lines [] = []"
| "with_blank_lines [x] = [x]"
| "with_blank_lines (x # y # xs) = x # [] # with_blank_lines (y # xs)"

lemma with_blank_lines_Nil_iff [simp]: "with_blank_lines xs = [] \<longleftrightarrow> xs = []"
  by (induction xs rule: with_blank_lines.induct) simp_all

lemma split_lines_ne [simp]: "split_lines s \<noteq> []"
  by (cases s) (simp_all add: Let_def)

lemma split_lines_no_nl:
  "CHR ''\<newline>'' \<notin> set x \<Longrightarrow> split_lines (x @ CHR ''\<newline>'' # y) = x # split_lines y"
  by (induction x) (auto simp: Let_def)

lemma split_lines_line: "CHR ''\<newline>'' \<notin> set x \<Longrightarrow> split_lines x = [x]"
  by (induction x) (auto simp: Let_def)

lemma split_lines_join:
  "xs \<noteq> [] \<Longrightarrow> \<forall>x\<in>set xs. CHR ''\<newline>'' \<notin> set x \<Longrightarrow> split_lines (js_join ''\<newline>'' xs) = xs"
  by (induction "''\<newline>''" xs rule: js_join.induct) (simp_all add: split_lines_no_nl split_lines_line)

lemma js_join_Cons:
  "js_join sep (x # ys) = (if ys = [] then x else x @ sep @ js_join sep ys)"
  by (cases ys) simp_all

lemma js_join_append:
  "xs \<noteq> [] \<Longrightarrow> ys \<noteq> [] \<Longrightarrow> js_join sep (xs @ ys) = js_join sep xs @ sep @ js_join sep ys"
  by (induction xs) (auto simp: js_join_Cons)

lemma js_join_double:
  "js_join (sep @ sep) xs = js_join sep (with_blank_lines xs)"
  by (induction xs rule: induct_list012) (simp_all add: js_join_Cons)

lemma js_join_flatten:
  "ys \<noteq> [] \<Longrightarrow> js_join sep (xs @ js_join sep ys # zs) = js_join sep (xs @ ys @ zs)"
  by (induction xs) (auto simp: js_join_Cons js_join_append)

lemma toTitleCase_no_nl: "CHR ''\<newline>'' \<notin> set (toTitleCase s)"
proof
  assume "CHR ''\<newline>'' \<in> set (toTitleCase s)"
  then show False using toTitleCase_chars by (fastforce simp: js_is_space_def)
qed

lemma buildFullPrompt_lines:
  assumes "scenes \<noteq> []" and "\<forall>s\<in>set scenes. CHR ''\<newline>'' \<notin> set (scene_line s)"
    and "CHR ''\<newline>'' \<notin> set mood" and "CHR ''\<newline>'' \<notin> set style"
  shows "split_lines (buildFullPrompt topic mood style scenes) =
     [toTitleCase topic @ '' ? cinematic text-to-video prompt'', [],
      ''Mood: '' @ mood @ ''. Style: '' @ style @ ''.'', [],
      ''Keep visuals consistent. Short, clear sentences. Focus on what the camera sees.'', []]
     @ map scene_line scenes
     @ [[], ''Final notes: consistent subject design, steady motion, no flicker, filmic grain, anamorphic bokeh.'']"
proof -
  let ?h = "toTitleCase topic @ '' ? cinematic text-to-video prompt''"
  let ?m = "''Mood: '' @ mood @ ''. Style: '' @ style @ ''.''"
  let ?g = "''Keep visuals consistent. Short, clear sentences. Focus on what the camera sees.''"
  let ?f = "''Final notes: consistent subject design, steady motion, no flicker, filmic grain, anamorphic bokeh.''"
  have "buildFullPrompt topic mood style scenes =
          js_join ''\<newline>'' [?h, [], ?m, [], ?g, [], js_join ''\<newline>'' (map scene_line scenes), [], ?f]"
    using js_join_double [of "''\<newline>''"] by (simp add: buildFullPrompt_def Let_def)
  also have "\<dots> = js_join ''\<newline>'' ([?h, [], ?m, [], ?g, []] @ map scene_line scenes @ [[], ?f])"
    using js_join_flatten [of "map scene_line scenes" "''\<newline>''" "[?h, [], ?m, [], ?g, []]" "[[], ?f]"]
      assms(1) by simp
  finally have eq: "buildFullPrompt topic mood style scenes =
      js_join ''\<newline>'' ([?h, [], ?m, [], ?g, []] @ map scene_line scenes @ [[], ?f])" .
  have "\<forall>x\<in>set ([?h, [], ?m, [], ?g, []] @ map scene_line scenes @ [[], ?f]). CHR ''\<newline>'' \<notin> set x"
    using assms(2-4) toTitleCase_no_nl [of topic] by simp
  then have "split_lines (js_join ''\<newline>'' ([?h, [], ?m, [], ?g, []] @ map scene_line scenes @ [[], ?f]))
      = [?h, [], ?m, [], ?g, []] @ map scene_line scenes @ [[], ?f]"
    by (intro split_lines_join) simp_all
  then show ?thesis by (simp only: eq)
qed

lemma scene_line_no_nl:
  assumes "s \<in> set (buildScenes topic n)"
  shows "CHR ''\<newline>'' \<notin> set (scene_line s)"
proof -
  obtain i where i: "i < js_to_length n" and s: "s = buildScenes topic n ! i"
    using assms by (auto simp: in_set_conv_nth)
  let ?tpl = "scene_templates (toTitleCase topic) ! (i mod 5)"
  have s_eq: "s = with_index (i + 1) ?tpl" using s i by (simp add: nth_buildScenes)
  have "?tpl \<in> set (scene_templates (toTitleCase topic))" by simp
  then have fields: "CHR ''\<newline>'' \<notin> set (setting ?tpl) \<union> set (cameraAngle ?tpl) \<union>
      set (cameraMovement ?tpl) \<union> set (actions ?tpl) \<union> set (lighting ?tpl) \<union> set (colors ?tpl) \<union>
      set (atmosphere ?tpl) \<union> set (importantObjects ?tpl)"
    using toTitleCase_no_nl [of topic] unfolding scene_templates_def by fastforce
  have "CHR ''\<newline>'' \<notin> set (js_nat_str (i + 1))"
    using js_nat_str_digits by (fastforce simp: js_is_digit_def)
  then show ?thesis
    using fields set_js_join [of "'' ''"] unfolding s_eq scene_line_def with_index_def by fastforce
qed

end
