(* ===== verification/AddOns.thy ===== *)
theory AddOns
  imports Normalizer
begin

text \<open>
  The AddOnComposer: \<open>buildAddOns\<close> (PromptGenerator.tsx, lines 148--185) starts from an
  empty object and, for each of the five flags of \<open>OptionalAddOns\<close> (lines 5--11) that
  is set, stores one text block under its key.  The flags are the record \<open>options\<close>;
  the object \<open>addOns\<close> of \<open>GeneratedOutput\<close> (lines 30--36) is the record \<open>addons\<close> of
  five optional strings, \<open>None\<close> for an absent key.  \<open>addon_get\<close> and \<open>option_flag\<close>
  read a key given as a value of \<open>addon_key\<close>, as the code's \<open>prev[key]\<close> does.  The
  lemmas show that the keys present are exactly the flags set, that every present block
  is non-empty, which blocks depend on the topic, and that the hashtag is the topic
  without whitespace, in lower case.
\<close>

record options =
  includeVoiceover :: bool
  includeDialogue :: bool
  includeThumbnail :: bool
  includeCaptionsTags :: bool
  includeMusic :: bool

record addons =
  voiceover :: "string option"
  dialogue :: "string option"
  thumbnail :: "string option"
  captionsTags :: "string option"
  music :: "string option"

datatype addon_key = Voiceover | Dialogue | Thumbnail | CaptionsTags | Music

fun option_flag :: "options \<Rightarrow> addon_key \<Rightarrow> bool" where
  "option_flag opts Voiceover = includeVoiceover opts"
| "option_flag opts Dialogue = includeDialogue opts"
| "option_flag opts Thumbnail = includeThumbnail opts"
| "option_flag opts CaptionsTags = includeCaptionsTags opts"
| "option_flag opts Music = includeMusic opts"

fun addon_get :: "addons \<Rightarrow> addon_key \<Rightarrow> string option" where
  "addon_get a Voiceover = voiceover a"
| "addon_get a Dialogue = dialogue a"
| "addon_get a Thumbnail = thumbnail a"
| "addon_get a CaptionsTags = captionsTags a"
| "addon_get a Music = music a"

text \<open>The initial flags of the component's state (lines 190--196): all off.\<close>

definition default_options :: options where
  "default_options =
     \<lparr>includeVoiceover = False, includeDialogue = False, includeThumbnail = False,
      includeCaptionsTags = False, includeMusic = False\<rparr>"

definition no_addons :: addons where
  "no_addons = \<lparr>voiceover = None, dialogue = None, thumbnail = None, captionsTags = None, music = None\<rparr>"

text \<open>The hashtag of the captions block: \<open>base.replace(/\s+/g, "").toLowerCase()\<close>.\<close>

definition topic_slug :: "string \<Rightarrow> string" where
  "topic_slug base = js_lower (js_strip_ws base)"

definition buildAddOns :: "string \<Rightarrow> options \<Rightarrow> addons" where
  "buildAddOns topic opts =
     (let base = toTitleCase topic;
          a0 = no_addons;
          a1 = (if includeVoiceover opts
                then a0\<lparr>voiceover := Some (js_join ''\<newline>''
                       [''Voiceover (calm, intimate, present):'',
                        base @ ''. I walk into the light. The world holds its breath.'',
                        ''Between what was and what will be, I choose to move.''])\<rparr>
                else a0);
          a2 = (if includeDialogue opts
                then a1\<lparr>dialogue := Some (js_join ''\<newline>''
                       [''Dialogue:'',
                        ''A: \"Do you hear it?\"'',
                        ''B: \"Only when it's quiet.\"'',
                        ''A: \"Then listen.\"''])\<rparr>
                else a1);
          a3 = (if includeThumbnail opts
                then a2\<lparr>thumbnail := Some (js_join ''\<newline>''
                       [''Thumbnail prompt:'',
                        base @ '' hero shot, strong silhouette, dominant focal point, shallow depth, soft bloom, high contrast, clean negative space, cinematic color grade''])\<rparr>
                else a2);
          a4 = (if includeCaptionsTags opts
                then a3\<lparr>captionsTags := Some (js_join ''\<newline>''
                       [''Captions & tags:'',
                        ''#cinematic #texttovideo #'' @ topic_slug base @ '' #filmlook #shortfilm''])\<rparr>
                else a3);
          a5 = (if includeMusic opts
                then a4\<lparr>music := Some (js_join ''\<newline>''
                       [''Music & sound mood:'',
                        ''Sparse piano, warm pads, low cello; subtle field sounds (wind, fabric, breath)''])\<rparr>
                else a4)
      in a5)"

lemma buildAddOns_fields:
  "voiceover (buildAddOns topic opts) =
     (if includeVoiceover opts then Some (js_join ''\<newline>''
        [''Voiceover (calm, intimate, present):'',
         toTitleCase topic @ ''. I walk into the light. The world holds its breath.'',
         ''Between what was and what will be, I choose to move.'']) else None)"
  "dialogue (buildAddOns topic opts) =
     (if includeDialogue opts then Some (js_join ''\<newline>''
        [''Dialogue:'', ''A: \"Do you hear it?\"'', ''B: \"Only when it's quiet.\"'',
         ''A: \"Then listen.\"'']) else None)"
  "thumbnail (buildAddOns topic opts) =
     (if includeThumbnail opts then Some (js_join ''\<newline>''
        [''Thumbnail prompt:'',
         toTitleCase topic @ '' hero shot, strong silhouette, dominant focal point, shallow depth, soft bloom, high contrast, clean negative space, cinematic color grade'']) else None)"
  "captionsTags (buildAddOns topic opts) =
     (if includeCaptionsTags opts then Some (js_join ''\<newline>''
        [''Captions & tags:'',
         ''#cinematic #texttovideo #'' @ topic_slug (toTitleCase topic) @ '' #filmlook #shortfilm'']) else None)"
  "music (buildAddOns topic opts) =
     (if includeMusic opts then Some (js_join ''\<newline>''
        [''Music & sound mood:'',
         ''Sparse piano, warm pads, low cello; subtle field sounds (wind, fabric, breath)'']) else None)"
  by (simp_all add: buildAddOns_def Let_def no_addons_def)

text \<open>C11: the add-on presence law: the keys present in \<open>addOns\<close> are exactly the flags
  that are set, and no present block is empty.\<close>

theorem buildAddOns_presence:
  "{k. addon_get (buildAddOns topic opts) k \<noteq> None} = {k. option_flag opts k} \<and>
   addon_get (buildAddOns topic opts) k \<noteq> Some []"
proof
  show "{k. addon_get (buildAddOns topic opts) k \<noteq> None} = {k. option_flag opts k}"
  proof (intro Collect_cong)
    fix k show "addon_get (buildAddOns topic opts) k \<noteq> None \<longleftrightarrow> option_flag opts k"
      by (cases k) (simp_all add: buildAddOns_fields)
  qed
  show "addon_get (buildAddOns topic opts) k \<noteq> Some []"
    by (cases k) (simp_all add: buildAddOns_fields)
qed

text \<open>C12: the dialogue and music blocks are literal: they are the same for every topic.
  (The voiceover, thumbnail and captions blocks contain the title.)\<close>

theorem buildAddOns_literal_blocks:
  "dialogue (buildAddOns topic opts) = dialogue (buildAddOns topic' opts) \<and>
   music (buildAddOns topic opts) = music (buildAddOns topic' opts)"
  by (simp add: buildAddOns_fields)

text \<open>C13: the captions block ends in a hashtag made from the title with all whitespace
  removed and lower-cased; since title-casing changes letters only, that is the topic
  itself without whitespace and in lower case (for topics without sharp s).\<close>

theorem buildAddOns_hashtag:
  "captionsTags (buildAddOns topic opts) = Some block \<Longrightarrow> CHR 0xDF \<notin> set topic \<Longrightarrow>
   block = ''Captions & tags:\<newline>#cinematic #texttovideo #'' @ js_lower (js_strip_ws topic)
           @ '' #filmlook #shortfilm''"
  using toTitleCase_lower_strip [of topic]
  by (auto simp: buildAddOns_fields topic_slug_def split: if_splits)

theorem buildAddOns_hashtag_witness:
  "captionsTags (buildAddOns ''Neon  city''
      \<lparr>includeVoiceover = False, includeDialogue = False, includeThumbnail = False,
       includeCaptionsTags = True, includeMusic = False\<rparr>)
     = Some ''Captions & tags:\<newline>#cinematic #texttovideo #neoncity #filmlook #shortfilm'' \<and>
   CHR 0xDF \<notin> set ''Neon  city'' \<and>
   ''Captions & tags:\<newline>#cinematic #texttovideo #neoncity #filmlook #shortfilm''
     = ''Captions & tags:\<newline>#cinematic #texttovideo #'' @ js_lower (js_strip_ws ''Neon  city'')
       @ '' #filmlook #shortfilm''"
proof -
  have h: "captionsTags (buildAddOns ''Neon  city''
      \<lparr>includeVoiceover = False, includeDialogue = False, includeThumbnail = False,
       includeCaptionsTags = True, includeMusic = False\<rparr>)
     = Some ''Captions & tags:\<newline>#cinematic #texttovideo #neoncity #filmlook #shortfilm''"
    by code_simp
  have d: "CHR 0xDF \<notin> set ''Neon  city''" by code_simp
  show ?thesis using h d buildAddOns_hashtag [OF h d] by blast
qed

end
