(* ===== verification/Orchestrator.thy ===== *)
theory Orchestrator
  imports Classifier Prompt AddOns
begin

text \<open>
  The Orchestrator: the \<open>useMemo\<close> callback of \<open>PromptGenerator\<close> (PromptGenerator.tsx,
  lines 198--216), here \<open>generate\<close>.  It trims the topic and returns \<open>null\<close>
  (\<open>None\<close>) for a blank one; otherwise it clamps the scene count with
  \<open>Math.min(Math.max(sceneCount, 3), 10)\<close>, runs the classifiers, \<open>buildScenes\<close>,
  \<open>buildFullPrompt\<close> and \<open>buildAddOns\<close> on the trimmed topic and returns the record
  \<open>generated_output\<close> (the type \<open>GeneratedOutput\<close>, lines 13--37).  The lemmas give
  the empty sentinel, the scene count (clamped into [3, 10] for a number, and zero for
  \<open>NaN\<close>), every field of the result, and the line structure of the full prompt.
\<close>

record generated_output =
  title :: string
  oneLine :: string
  mood :: string
  style :: string
  scenes :: "scene list"
  fullPrompt :: string
  addOns :: addons

definition generate :: "string \<Rightarrow> js_num \<Rightarrow> options \<Rightarrow> generated_output option" where
  "generate topic sceneCount opts =
     (let clean = js_trim topic
      in if clean = [] then None
         else
           (let mood = inferMood clean;
                style = inferStyle clean;
                scenes = buildScenes clean (js_min (js_max sceneCount (JNum 3)) (JNum 10));
                fullPrompt = buildFullPrompt clean mood style scenes;
                addOns = buildAddOns clean opts
            in Some \<lparr>title = toTitleCase clean,
                     oneLine = toTitleCase clean @ '' ? a '' @ js_split_first (CHR '','') mood @ '' journey'',
                     mood = mood, style = style, scenes = scenes, fullPrompt = fullPrompt,
                     addOns = addOns\<rparr>))"

lemma toTitleCase_trim: "toTitleCase (js_trim s) = toTitleCase s"
  by (simp add: toTitleCase_def js_trim_idem)

lemma generate_Some:
  "js_trim topic \<noteq> [] \<Longrightarrow> generate topic sceneCount opts =
     Some \<lparr>title = toTitleCase topic,
           oneLine = toTitleCase topic @ '' ? a '' @ js_split_first (CHR '','') (inferMood (js_trim topic)) @ '' journey'',
           mood = inferMood (js_trim topic), style = inferStyle (js_trim topic),
           scenes = buildScenes topic (js_min (js_max sceneCount (JNum 3)) (JNum 10)),
           fullPrompt = buildFullPrompt topic (inferMood (js_trim topic)) (inferStyle (js_trim topic))
                          (buildScenes topic (js_min (js_max sceneCount (JNum 3)) (JNum 10))),
           addOns = buildAddOns topic opts\<rparr>"
  by (simp add: generate_def Let_def toTitleCase_trim buildScenes_def buildFullPrompt_def
      buildAddOns_def)

lemma generate_SomeD:
  "generate topic sceneCount opts = Some out \<Longrightarrow>
   js_trim topic \<noteq> [] \<and>
   out = \<lparr>title = toTitleCase topic,
           oneLine = toTitleCase topic @ '' ? a '' @ js_split_first (CHR '','') (inferMood (js_trim topic)) @ '' journey'',
           mood = inferMood (js_trim topic), style = inferStyle (js_trim topic),
           scenes = buildScenes topic (js_min (js_max sceneCount (JNum 3)) (JNum 10)),
           fullPrompt = buildFullPrompt topic (inferMood (js_trim topic)) (inferStyle (js_trim topic))
                          (buildScenes topic (js_min (js_max sceneCount (JNum 3)) (JNum 10))),
           addOns = buildAddOns topic opts\<rparr>"
proof -
  assume g: "generate topic sceneCount opts = Some out"
  then have ne: "js_trim topic \<noteq> []" by (auto simp: generate_def Let_def)
  then show ?thesis using g generate_Some [OF ne, of sceneCount opts] by simp
qed

text \<open>C1: the empty sentinel: the result is \<open>null\<close> exactly when the trimmed topic is
  empty, whatever the scene count and the add-on flags.\<close>

theorem generate_None_iff: "generate topic sceneCount opts = None \<longleftrightarrow> js_trim topic = []"
  by (simp add: generate_def Let_def)

text \<open>C2: for a numeric scene count \<open>n\<close>, the result has \<open>min (max n 3) 10\<close> scenes,
  always between 3 and 10: out-of-range requests are clamped, never rejected.\<close>

theorem generate_scene_count:
  "generate topic (JNum n) opts = Some out \<Longrightarrow>
   length (scenes out) = nat (min (max n 3) 10) \<and> 3 \<le> length (scenes out) \<and> length (scenes out) \<le> 10"
  by (drule generate_SomeD) auto

text \<open>C3: a scene count that is \<open>NaN\<close> passes through \<open>Math.max\<close> and \<open>Math.min\<close>
  unchanged and \<open>Array.from({length: NaN})\<close> is empty: the result then has no scenes at
  all, outside the range [3, 10] the clamp is meant to guarantee.\<close>

theorem generate_NaN_no_scenes:
  "generate topic JNaN opts = Some out \<Longrightarrow> scenes out = []"
  by (drule generate_SomeD) (simp add: buildScenes_def)

text \<open>C14: the full prompt of every result has one line per scene: its lines are the
  header with the title, an empty line, the mood and style line, an empty line, the
  guidance line, an empty line, the scene lines in order, an empty line and the closing
  notes.\<close>

theorem generate_prompt_lines:
  "generate topic (JNum n) opts = Some out \<Longrightarrow>
   split_lines (fullPrompt out) =
     [title out @ '' ? cinematic text-to-video prompt'', [],
      ''Mood: '' @ mood out @ ''. Style: '' @ style out @ ''.'', [],
      ''Keep visuals consistent. Short, clear sentences. Focus on what the camera sees.'', []]
     @ map scene_line (scenes out)
     @ [[], ''Final notes: consistent subject design, steady motion, no flicker, filmic grain, anamorphic bokeh.'']"
proof -
  assume "generate topic (JNum n) opts = Some out"
  note g = generate_SomeD [OF this]
  let ?scs = "buildScenes topic (js_min (js_max (JNum n) (JNum 3)) (JNum 10))"
  have "?scs \<noteq> []" by (auto simp: buildScenes_def)
  moreover have "\<forall>s\<in>set ?scs. CHR ''\<newline>'' \<notin> set (scene_line s)"
    using scene_line_no_nl by blast
  ultimately show ?thesis
    using g buildFullPrompt_lines inferMood_no_nl inferStyle_no_nl by simp
qed

theorem generate_scene_count_witness:
  "\<exists>out. generate ''rain'' (JNum 42) default_options = Some out \<and>
     length (scenes out) = nat (min (max 42 3) 10) \<and> 3 \<le> length (scenes out) \<and> length (scenes out) \<le> 10"
proof -
  have ne: "js_trim ''rain'' \<noteq> []" by code_simp
  obtain out where g: "generate ''rain'' (JNum 42) default_options = Some out"
    using generate_Some [OF ne] by blast
  show ?thesis using g generate_scene_count [OF g] by blast
qed

theorem generate_NaN_no_scenes_witness:
  "js_parse_int ''.5'' = JNaN \<and>
   (\<exists>out. generate ''rain'' (js_parse_int ''.5'') default_options = Some out \<and> scenes out = [])"
proof -
  have p: "js_parse_int ''.5'' = JNaN" by code_simp
  have ne: "js_trim ''rain'' \<noteq> []" by code_simp
  obtain out where g: "generate ''rain'' JNaN default_options = Some out"
    using generate_Some [OF ne] by blast
  show ?thesis using p g generate_NaN_no_scenes [OF g] by simp
qed

theorem generate_prompt_lines_witness:
  "\<exists>out. generate ''rain'' (JNum 3) default_options = Some out \<and>
     split_lines (fullPrompt out) =
       [title out @ '' ? cinematic text-to-video prompt'', [],
        ''Mood: '' @ mood out @ ''. Style: '' @ style out @ ''.'', [],
        ''Keep visuals consistent. Short, clear sentences. Focus on what the camera sees.'', []]
       @ map scene_line (scenes out)
       @ [[], ''Final notes: consistent subject design, steady motion, no flicker, filmic grain, anamorphic bokeh.'']"
proof -
  have ne: "js_trim ''rain'' \<noteq> []" by code_simp
  obtain out where g: "generate ''rain'' (JNum 3) default_options = Some out"
    using generate_Some [OF ne] by blast
  show ?thesis using g generate_prompt_lines [OF g] by blast
qed

text \<open>C30: the one-line summary is the title, the literal \<open> ? a \<close>, the first word of
  the result's mood, which is the classifier's mood of the trimmed topic and one of five
  words, and \<open> journey\<close>.\<close>

theorem generate_oneLine:
  "generate topic n opts = Some out \<Longrightarrow>
   mood out = inferMood (js_trim topic) \<and>
   oneLine out = title out @ '' ? a '' @ js_split_first (CHR '','') (mood out) @ '' journey'' \<and>
   js_split_first (CHR '','') (mood out) \<in> {''cinematic'', ''moody'', ''warm'', ''cool'', ''epic''}"
proof -
  assume "generate topic n opts = Some out"
  note g = generate_SomeD [OF this]
  have "js_split_first (CHR '','') (inferMood (js_trim topic)) \<in>
      {''cinematic'', ''moody'', ''warm'', ''cool'', ''epic''}"
    using inferMood_range [of "js_trim topic"]
    by (elim insertE emptyE) (simp_all add: js_split_first_def)
  then show ?thesis using g by simp
qed

theorem generate_oneLine_witness:
  "\<exists>out. generate ''neon rain'' (JNum 5) default_options = Some out \<and>
     oneLine out = ''Neon Rain ? a moody journey''"
proof -
  have ne: "js_trim ''neon rain'' \<noteq> []" by code_simp
  obtain out where g: "generate ''neon rain'' (JNum 5) default_options = Some out"
    using generate_Some [OF ne] by blast
  have "toTitleCase ''neon rain'' = ''Neon Rain''" by code_simp
  then have t: "title out = ''Neon Rain''" using generate_SomeD [OF g] by simp
  have m: "inferMood (js_trim ''neon rain'') = ''moody, dramatic, tension''" by code_simp
  have "js_split_first (CHR '','') ''moody, dramatic, tension'' = ''moody''" by code_simp
  then show ?thesis using g generate_oneLine [OF g] t m by auto
qed

end
