(* ===== verification/Export.thy ===== *)
theory Export
  imports Orchestrator
begin

text \<open>
  The two renderings of a result.  \<open>copy_text\<close> is the text \<open>copyAll\<close>
  (PromptGenerator.tsx, lines 220--259) writes to the clipboard: the sections joined with
  line breaks after \<open>.filter(Boolean)\<close> has removed every empty entry, the add-on
  blocks joined with blank lines under a \<open>4) Optional Add-ons\<close> heading when there is
  at least one.  \<open>render_panel\<close> is the text content of the output panel (lines
  315--386): the placeholder without a result, otherwise the concept lines, one
  \<open>scene_div\<close> per scene and the full prompt, followed by \<open>render_addons\<close>, the add-on
  part, where the heading sits inside the voiceover branch.  The lemmas show that the
  copied text has no blank line between its first sections and ends with the full prompt
  and the add-on section in the fixed order, that the panel and the clipboard agree on
  the add-on part exactly when the voiceover is enabled or no add-on is, and that the
  panel's text is never the copied text.
\<close>

text \<open>JavaScript truthiness of an optional string (\<open>undefined\<close> and \<open>""\<close> are falsy).\<close>

definition js_truthy :: "string option \<Rightarrow> bool" where
  "js_truthy x = (case x of None \<Rightarrow> False | Some s \<Rightarrow> s \<noteq> [])"

text \<open>\<open>[...].filter(Boolean)\<close> on a list of optional strings.\<close>

definition js_filter_truthy :: "string option list \<Rightarrow> string list" where
  "js_filter_truthy xs = map the (filter js_truthy xs)"

text \<open>The add-on blocks in the order \<open>copyAll\<close> lists them (lines 229--235).\<close>

definition addon_parts :: "addons \<Rightarrow> string option list" where
  "addon_parts a = [voiceover a, dialogue a, thumbnail a, captionsTags a, music a]"

text \<open>One scene of the copied breakdown (line 225).\<close>

definition scene_block :: "scene \<Rightarrow> string" where
  "scene_block s =
     ''Scene '' @ js_nat_str (index s) @ '':\<newline>- Setting: '' @ scene_setting s
     @ ''\<newline>- Camera angle: '' @ scene_cameraAngle s
     @ ''\<newline>- Camera movement: '' @ scene_cameraMovement s
     @ ''\<newline>- Character actions: '' @ scene_actions s
     @ ''\<newline>- Lighting: '' @ scene_lighting s
     @ ''\<newline>- Colors: '' @ scene_colors s
     @ ''\<newline>- Atmosphere: '' @ scene_atmosphere s
     @ ''\<newline>- Important objects: '' @ scene_importantObjects s"

definition copy_text :: "generated_output \<Rightarrow> string" where
  "copy_text output =
     (let sceneText = js_join ''\<newline>\<newline>'' (map scene_block (scenes output));
          addOnText = js_join ''\<newline>\<newline>'' (js_filter_truthy (addon_parts (addOns output)))
      in js_join ''\<newline>''
           (filter (\<lambda>x. x \<noteq> [])
             [''1) Video Concept'',
              ''Title: '' @ title output,
              ''One-line: '' @ oneLine output,
              ''Mood & emotion: '' @ mood output,
              ''Style: '' @ style output,
              [],
              ''2) Scene Breakdown'',
              sceneText,
              [],
              ''3) Full Text-to-Video Prompt'',
              fullPrompt output,
              (if addOnText \<noteq> [] then ''\<newline>\<newline>4) Optional Add-ons\<newline>'' @ addOnText else [])]))"

text \<open>The add-on section of \<open>copy_text\<close>, as the last entry of the list above.\<close>

definition copy_addon_section :: "addons \<Rightarrow> string" where
  "copy_addon_section a =
     (let addOnText = js_join ''\<newline>\<newline>'' (js_filter_truthy (addon_parts a))
      in if addOnText \<noteq> [] then ''\<newline>\<newline>4) Optional Add-ons\<newline>'' @ addOnText else [])"

text \<open>The text content of lines 351--386: each block after \<open>"\n\n"\<close>, the heading only
  in the voiceover branch.\<close>

definition render_addons :: "addons \<Rightarrow> string" where
  "render_addons a =
     (if js_truthy (voiceover a)
      then ''\<newline>\<newline>'' @ ''4) Optional Add-ons'' @ ''\<newline>'' @ the (voiceover a) else [])
     @ (if js_truthy (dialogue a) then ''\<newline>\<newline>'' @ the (dialogue a) else [])
     @ (if js_truthy (thumbnail a) then ''\<newline>\<newline>'' @ the (thumbnail a) else [])
     @ (if js_truthy (captionsTags a) then ''\<newline>\<newline>'' @ the (captionsTags a) else [])
     @ (if js_truthy (music a) then ''\<newline>\<newline>'' @ the (music a) else [])"

definition panel_placeholder :: string where
  "panel_placeholder = ''Type your idea to generate a cinematic prompt.''"

text \<open>One scene \<open><div>\<close> of the panel (lines 333--343).\<close>

definition scene_div :: "scene \<Rightarrow> string" where
  "scene_div s =
     ''Scene '' @ js_nat_str (index s)
     @ ''\<newline>'' @ ''- Setting: '' @ scene_setting s
     @ ''\<newline>'' @ ''- Camera angle: '' @ scene_cameraAngle s
     @ ''\<newline>'' @ ''- Camera movement: '' @ scene_cameraMovement s
     @ ''\<newline>'' @ ''- Character actions: '' @ scene_actions s
     @ ''\<newline>'' @ ''- Lighting: '' @ scene_lighting s
     @ ''\<newline>'' @ ''- Colors: '' @ scene_colors s
     @ ''\<newline>'' @ ''- Atmosphere: '' @ scene_atmosphere s
     @ ''\<newline>'' @ ''- Important objects: '' @ scene_importantObjects s"

text \<open>The text content of the output panel (lines 315--386): the placeholder when there
  is no result, otherwise the text nodes of the panel in order.  JSX drops the
  whitespace-only text between elements; the scene \<open><div>\<close>s are block boxes that add
  no characters.\<close>

definition render_panel :: "generated_output option \<Rightarrow> string" where
  "render_panel output =
     (case output of
        None \<Rightarrow> panel_placeholder
      | Some out \<Rightarrow>
          ''1) Video Concept'' @ ''\<newline>'' @ ''Title: '' @ title out
          @ ''\<newline>'' @ ''One-line: '' @ oneLine out
          @ ''\<newline>'' @ ''Mood & emotion: '' @ mood out
          @ ''\<newline>'' @ ''Style: '' @ style out
          @ ''\<newline>\<newline>'' @ ''2) Scene Breakdown'' @ ''\<newline>''
          @ concat (map scene_div (scenes out))
          @ ''\<newline>'' @ ''3) Full Text-to-Video Prompt'' @ ''\<newline>'' @ fullPrompt out
          @ render_addons (addOns out))"

lemma js_join_Cons_concat: "js_join sep (x # xs) = x @ concat (map (\<lambda>y. sep @ y) xs)"
  by (induction xs arbitrary: x) (simp_all add: js_join_Cons)

lemma render_addons_concat:
  "render_addons a =
     (if js_truthy (voiceover a) then ''\<newline>\<newline>4) Optional Add-ons\<newline>'' @ the (voiceover a) else [])
     @ concat (map (\<lambda>b. ''\<newline>\<newline>'' @ b)
                 (js_filter_truthy [dialogue a, thumbnail a, captionsTags a, music a]))"
  by (simp add: render_addons_def js_filter_truthy_def)

lemma js_filter_truthy_ne: "b \<in> set (js_filter_truthy xs) \<Longrightarrow> b \<noteq> []"
  by (auto simp: js_filter_truthy_def js_truthy_def split: option.splits)

lemma buildAddOns_voiceover_truthy:
  "js_truthy (voiceover (buildAddOns topic opts)) \<longleftrightarrow> includeVoiceover opts"
  by (simp add: buildAddOns_fields js_truthy_def)

lemma buildAddOns_other_blocks:
  "b \<in> set (js_filter_truthy [dialogue (buildAddOns topic opts), thumbnail (buildAddOns topic opts),
      captionsTags (buildAddOns topic opts), music (buildAddOns topic opts)]) \<Longrightarrow>
   hd b \<noteq> CHR ''4''"
  by (auto simp: js_filter_truthy_def js_truthy_def buildAddOns_fields split: if_splits)

lemma buildAddOns_other_blocks_Nil:
  "js_filter_truthy [dialogue (buildAddOns topic opts), thumbnail (buildAddOns topic opts),
      captionsTags (buildAddOns topic opts), music (buildAddOns topic opts)] = [] \<longleftrightarrow>
   \<not> includeDialogue opts \<and> \<not> includeThumbnail opts \<and> \<not> includeCaptionsTags opts \<and> \<not> includeMusic opts"
  by (simp add: js_filter_truthy_def js_truthy_def buildAddOns_fields)

lemma default_options_iff:
  "opts = default_options \<longleftrightarrow>
   \<not> includeVoiceover opts \<and> \<not> includeDialogue opts \<and> \<not> includeThumbnail opts \<and>
   \<not> includeCaptionsTags opts \<and> \<not> includeMusic opts"
  by (cases opts) (simp add: default_options_def)

lemma copy_text_prefix:
  "generate topic n opts = Some out \<Longrightarrow>
   prefix (''1) Video Concept\<newline>Title: '' @ title out @ ''\<newline>One-line: '' @ oneLine out
           @ ''\<newline>Mood & emotion: '' @ mood out @ ''\<newline>Style: '' @ style out
           @ ''\<newline>2) Scene Breakdown\<newline>'') (copy_text out)"
proof -
  assume "generate topic n opts = Some out"
  note g = generate_SomeD [OF this]
  have ne: "title out \<noteq> []" "mood out \<noteq> []" "style out \<noteq> []"
    using g toTitleCase_Nil_iff inferMood_ne inferStyle_ne by simp_all
  let ?rest = "filter (\<lambda>x. x \<noteq> [])
      [js_join ''\<newline>\<newline>'' (map scene_block (scenes out)), [], ''3) Full Text-to-Video Prompt'',
       fullPrompt out, copy_addon_section (addOns out)]"
  have "?rest \<noteq> []" by (simp split: if_splits)
  then obtain r rs where rest: "?rest = r # rs" by (meson neq_Nil_conv)
  have "copy_text out = js_join ''\<newline>''
      ([''1) Video Concept'', ''Title: '' @ title out, ''One-line: '' @ oneLine out,
        ''Mood & emotion: '' @ mood out, ''Style: '' @ style out, ''2) Scene Breakdown''] @ ?rest)"
    using ne by (simp add: copy_text_def copy_addon_section_def Let_def)
  then show ?thesis by (simp only: rest) (simp add: js_join_Cons_concat)
qed

lemma js_join_Cons_ne: "x \<noteq> [] \<Longrightarrow> js_join sep (x # xs) \<noteq> []"
  by (simp add: js_join_Cons_concat)

lemma js_join_Nil_iff: "\<forall>x\<in>set xs. x \<noteq> [] \<Longrightarrow> js_join sep xs = [] \<longleftrightarrow> xs = []"
  by (cases xs) (simp_all add: js_join_Cons_ne)

lemma buildFullPrompt_ne: "buildFullPrompt topic m s scs \<noteq> []"
  by (simp add: buildFullPrompt_def Let_def js_join_Cons_ne)

lemma copy_addon_section_buildAddOns:
  "copy_addon_section (buildAddOns topic opts) =
     (if opts = default_options then []
      else ''\<newline>\<newline>4) Optional Add-ons\<newline>''
           @ js_join ''\<newline>\<newline>'' (js_filter_truthy (addon_parts (buildAddOns topic opts))))"
proof -
  let ?F = "js_filter_truthy (addon_parts (buildAddOns topic opts))"
  have "?F = [] \<longleftrightarrow> opts = default_options"
    using buildAddOns_other_blocks_Nil [of topic opts] buildAddOns_voiceover_truthy [of topic opts]
    by (auto simp: js_filter_truthy_def addon_parts_def default_options_iff)
  moreover have "js_join ''\<newline>\<newline>'' ?F = [] \<longleftrightarrow> ?F = []"
    using js_filter_truthy_ne by (intro js_join_Nil_iff) blast
  ultimately show ?thesis by (simp add: copy_addon_section_def Let_def)
qed

lemma addon_blocks_in_order:
  "js_filter_truthy (addon_parts (buildAddOns topic opts)) =
     map (\<lambda>k. the (addon_get (buildAddOns topic opts) k))
       (filter (option_flag opts) [Voiceover, Dialogue, Thumbnail, CaptionsTags, Music])"
  by (simp add: js_filter_truthy_def addon_parts_def buildAddOns_fields js_truthy_def)

text \<open>C16: the output panel and the copied text show the add-on part the same way only
  when the voiceover is enabled or no add-on is: with the voiceover off and another
  add-on on, the panel omits the \<open>4) Optional Add-ons\<close> heading that the copied
  text has.\<close>

theorem render_addons_matches_copy_iff:
  "render_addons (buildAddOns topic opts) = copy_addon_section (buildAddOns topic opts) \<longleftrightarrow>
   includeVoiceover opts \<or> opts = default_options"
proof -
  let ?a = "buildAddOns topic opts"
  let ?F = "js_filter_truthy [dialogue ?a, thumbnail ?a, captionsTags ?a, music ?a]"
  have parts: "js_filter_truthy (addon_parts ?a) =
      (if js_truthy (voiceover ?a) then [the (voiceover ?a)] else []) @ ?F"
    by (simp add: js_filter_truthy_def addon_parts_def)
  show ?thesis
  proof (cases "includeVoiceover opts")
    case True
    then have "js_truthy (voiceover ?a)" by (simp add: buildAddOns_voiceover_truthy)
    then show ?thesis using True
      by (simp add: render_addons_concat copy_addon_section_def parts js_join_Cons_concat
          js_truthy_def split: option.splits)
  next
    case False
    then have nv: "\<not> js_truthy (voiceover ?a)" by (simp add: buildAddOns_voiceover_truthy)
    show ?thesis
    proof (cases ?F)
      case Nil
      then show ?thesis using False nv buildAddOns_other_blocks_Nil [of topic opts]
        by (simp add: render_addons_concat copy_addon_section_def parts default_options_iff)
    next
      case (Cons b bs)
      have bin: "b \<in> set ?F" using Cons by simp
      have "b \<noteq> []" using bin by (rule js_filter_truthy_ne)
      moreover have "hd b \<noteq> CHR ''4''" using bin by (rule buildAddOns_other_blocks)
      ultimately have "''\<newline>\<newline>'' @ b @ concat (map (\<lambda>y. ''\<newline>\<newline>'' @ y) bs) \<noteq>
                 ''\<newline>\<newline>4) Optional Add-ons\<newline>'' @ b @ concat (map (\<lambda>y. ''\<newline>\<newline>'' @ y) bs)"
        by (cases b) auto
      moreover have "opts \<noteq> default_options"
        using Cons buildAddOns_other_blocks_Nil [of topic opts] by (auto simp: default_options_iff)
      ultimately show ?thesis using False nv Cons
        by (simp add: render_addons_concat copy_addon_section_def parts js_join_Cons_concat)
    qed
  qed
qed

text \<open>C15: \<open>.filter(Boolean)\<close> removes the empty strings meant as blank separator
  lines: in the copied text of every result, the \<open>Style\<close> line is followed directly by
  the \<open>2) Scene Breakdown\<close> heading, with no blank line between the sections.\<close>

theorem copy_text_no_blank_line:
  "generate topic n opts = Some out \<Longrightarrow>
   prefix (''1) Video Concept\<newline>Title: '' @ title out @ ''\<newline>One-line: '' @ oneLine out
           @ ''\<newline>Mood & emotion: '' @ mood out @ ''\<newline>Style: '' @ style out
           @ ''\<newline>2) Scene Breakdown\<newline>'') (copy_text out)"
  by (rule copy_text_prefix)

theorem copy_text_no_blank_line_witness:
  "\<exists>out. generate ''city lights'' (JNum 3) default_options = Some out \<and>
     prefix (''1) Video Concept\<newline>Title: '' @ title out @ ''\<newline>One-line: '' @ oneLine out
           @ ''\<newline>Mood & emotion: '' @ mood out @ ''\<newline>Style: '' @ style out
           @ ''\<newline>2) Scene Breakdown\<newline>'') (copy_text out)"
proof -
  have ne: "js_trim ''city lights'' \<noteq> []" by code_simp
  obtain out where g: "generate ''city lights'' (JNum 3) default_options = Some out"
    using generate_Some [OF ne] by blast
  show ?thesis using g copy_text_no_blank_line [OF g] by blast
qed

text \<open>C23: the copied text ends with the \<open>3) Full Text-to-Video Prompt\<close> heading and the
  full prompt verbatim; the \<open>4) Optional Add-ons\<close> section follows exactly when some add-on
  is enabled, listing the enabled blocks in the fixed order voiceover, dialogue, thumbnail,
  captions and tags, music, after two blank lines (the join's line break and the section's
  own leading \<open>"\n\n"\<close>); the blocks are those of the set flags, taken in the key order.\<close>

theorem copy_text_tail:
  "generate topic n opts = Some out \<Longrightarrow>
   \<exists>p. copy_text out = p @ ''\<newline>3) Full Text-to-Video Prompt\<newline>'' @ fullPrompt out @
     (if opts = default_options then []
      else ''\<newline>\<newline>\<newline>4) Optional Add-ons\<newline>''
           @ js_join ''\<newline>\<newline>'' (map (\<lambda>k. the (addon_get (addOns out) k))
               (filter (option_flag opts) [Voiceover, Dialogue, Thumbnail, CaptionsTags, Music])))"
proof -
  assume "generate topic n opts = Some out"
  note g = generate_SomeD [OF this]
  have fp: "fullPrompt out \<noteq> []" using g buildFullPrompt_ne by simp
  let ?A = "filter (\<lambda>x. x \<noteq> [])
      [''1) Video Concept'', ''Title: '' @ title out, ''One-line: '' @ oneLine out,
       ''Mood & emotion: '' @ mood out, ''Style: '' @ style out, [], ''2) Scene Breakdown'',
       js_join ''\<newline>\<newline>'' (map scene_block (scenes out)), []]"
  let ?S = "copy_addon_section (addOns out)"
  have A: "?A \<noteq> []" by simp
  have c: "copy_text out = js_join ''\<newline>''
      (?A @ [''3) Full Text-to-Video Prompt'', fullPrompt out] @ (if ?S = [] then [] else [?S]))"
    using fp by (simp add: copy_text_def copy_addon_section_def Let_def)
  have "copy_text out = js_join ''\<newline>'' ?A @ ''\<newline>3) Full Text-to-Video Prompt\<newline>''
      @ fullPrompt out @ (if ?S = [] then [] else ''\<newline>'' @ ?S)"
    unfolding c using A by (simp add: js_join_append)
  then show ?thesis using g by (simp add: copy_addon_section_buildAddOns addon_blocks_in_order)
qed

text \<open>C24: the output panel and the clipboard never show the same text: the panel leaves
  a blank line after the \<open>Style\<close> line and heads each scene \<open>Scene N\<close> without the
  colon that the copied text has.\<close>

theorem render_panel_vs_copy:
  "generate topic n opts = Some out \<Longrightarrow> n \<noteq> JNaN \<Longrightarrow>
   prefix (''1) Video Concept\<newline>Title: '' @ title out @ ''\<newline>One-line: '' @ oneLine out
           @ ''\<newline>Mood & emotion: '' @ mood out @ ''\<newline>Style: '' @ style out
           @ ''\<newline>\<newline>2) Scene Breakdown\<newline>Scene 1\<newline>- Setting: '') (render_panel (Some out)) \<and>
   render_panel (Some out) \<noteq> copy_text out"
proof -
  assume gen: "generate topic n opts = Some out" and n: "n \<noteq> JNaN"
  note g = generate_SomeD [OF gen]
  let ?c = "js_min (js_max n (JNum 3)) (JNum 10)"
  have pos: "0 < js_to_length ?c" using n by (cases n) auto
  have "index (buildScenes topic ?c ! 0) = 1"
    using nth_buildScenes [OF pos] by (simp add: with_index_def)
  moreover have "buildScenes topic ?c \<noteq> []"
    using pos by (metis length_buildScenes length_greater_0_conv)
  ultimately obtain sc scs where scs: "scenes out = sc # scs" and "index sc = 1"
    using g by (cases "buildScenes topic ?c") auto
  moreover have "js_nat_str 1 = ''1''" by code_simp
  ultimately have "prefix (''1) Video Concept\<newline>Title: '' @ title out @ ''\<newline>One-line: '' @ oneLine out
           @ ''\<newline>Mood & emotion: '' @ mood out @ ''\<newline>Style: '' @ style out
           @ ''\<newline>\<newline>2) Scene Breakdown\<newline>Scene 1\<newline>- Setting: '') (render_panel (Some out))"
    by (simp add: render_panel_def scene_div_def)
  moreover have "render_panel (Some out) \<noteq> copy_text out"
  proof
    assume eq: "render_panel (Some out) = copy_text out"
    obtain r where "copy_text out = ''1) Video Concept\<newline>Title: '' @ title out @ ''\<newline>One-line: '' @ oneLine out
           @ ''\<newline>Mood & emotion: '' @ mood out @ ''\<newline>Style: '' @ style out
           @ ''\<newline>2) Scene Breakdown\<newline>'' @ r"
      using copy_text_prefix [OF gen] by (auto simp: prefix_def)
    with eq show False by (simp add: render_panel_def)
  qed
  ultimately show ?thesis by blast
qed

theorem copy_text_tail_witness:
  "\<exists>out. generate ''rain'' (JNum 3) (default_options\<lparr>includeMusic := True\<rparr>) = Some out \<and>
     (\<exists>p. copy_text out = p @ ''\<newline>3) Full Text-to-Video Prompt\<newline>'' @ fullPrompt out @
       (if default_options\<lparr>includeMusic := True\<rparr> = default_options then []
        else ''\<newline>\<newline>\<newline>4) Optional Add-ons\<newline>''
             @ js_join ''\<newline>\<newline>'' (map (\<lambda>k. the (addon_get (addOns out) k))
                 (filter (option_flag (default_options\<lparr>includeMusic := True\<rparr>))
                    [Voiceover, Dialogue, Thumbnail, CaptionsTags, Music]))))"
proof -
  have ne: "js_trim ''rain'' \<noteq> []" by code_simp
  obtain out where g: "generate ''rain'' (JNum 3) (default_options\<lparr>includeMusic := True\<rparr>) = Some out"
    using generate_Some [OF ne] by blast
  show ?thesis using g copy_text_tail [OF g] by blast
qed

theorem render_panel_vs_copy_witness:
  "JNum 5 \<noteq> JNaN \<and> (\<exists>out. generate ''rain'' (JNum 5) default_options = Some out \<and>
     prefix (''1) Video Concept\<newline>Title: '' @ title out @ ''\<newline>One-line: '' @ oneLine out
           @ ''\<newline>Mood & emotion: '' @ mood out @ ''\<newline>Style: '' @ style out
           @ ''\<newline>\<newline>2) Scene Breakdown\<newline>Scene 1\<newline>- Setting: '') (render_panel (Some out)) \<and>
     render_panel (Some out) \<noteq> copy_text out)"
proof -
  have ne: "js_trim ''rain'' \<noteq> []" by code_simp
  obtain out where g: "generate ''rain'' (JNum 5) default_options = Some out"
    using generate_Some [OF ne] by blast
  have n: "JNum 5 \<noteq> JNaN" by simp
  show ?thesis using n g render_panel_vs_copy [OF g n] by blast
qed

end
