(* ===== verification/UI.thy ===== *)
theory UI
  imports Export
begin

text \<open>
  The state of the \<open>PromptGenerator\<close> component (PromptGenerator.tsx, lines 187--263)
  and the events that change it, as an inductive step relation.  The state holds the
  three \<open>useState\<close> values that feed the generator (\<open>topic\<close>, \<open>sceneCount\<close>,
  \<open>options\<close>), the \<open>copied\<close> flag, the number of pending \<open>setTimeout\<close> resets, the
  clipboard writes that \<open>copyAll\<close> has started and that have not settled, and the
  clipboard as far as the component has written it.  The output is recomputed from the
  state (\<open>useMemo\<close> is a cache of \<open>generate\<close>).  Clicking copy computes the text at once
  and starts an asynchronous write; the write later resolves (the text reaches the
  clipboard, \<open>copied\<close> is set and a reset is scheduled) or rejects (nothing follows the
  \<open>await\<close>); other events may come in between.  The lemmas show that the clipboard only
  ever receives the export of a non-empty result, that \<open>Copied!\<close> is shown only while a
  reset is pending and always goes away, and that a checkbox flips its own flag.  The
  events are also a datatype \<open>ui_event\<close> with an executable handler \<open>ui_handle\<close>,
  each of whose results is a step of the relation, and runs \<open>ui_run\<close> of event
  sequences; the browser's callbacks terminate (a weighted count of pending writes and
  timers decreases), can always settle, and are bounded; re-entering the displayed
  scene count changes nothing; and two concrete runs show orderings the code allows: an
  earlier timer hiding a later \<open>Copied!\<close>, and writes settling out of order.
\<close>

record ui_state =
  ui_topic :: string
  ui_sceneCount :: js_num
  ui_options :: options
  ui_copied :: bool
  ui_timers :: nat
  ui_writes :: "string list"
  ui_clipboard :: "string option"

definition ui_init :: ui_state where
  "ui_init =
     \<lparr>ui_topic = [], ui_sceneCount = JNum 5, ui_options = default_options, ui_copied = False,
      ui_timers = 0, ui_writes = [], ui_clipboard = None\<rparr>"

definition ui_output :: "ui_state \<Rightarrow> generated_output option" where
  "ui_output s = generate (ui_topic s) (ui_sceneCount s) (ui_options s)"

text \<open>\<open>setOptions((prev) => ({ ...prev, [key]: !prev[key] }))\<close>.\<close>

fun toggle_option :: "options \<Rightarrow> addon_key \<Rightarrow> options" where
  "toggle_option opts Voiceover = opts\<lparr>includeVoiceover := \<not> includeVoiceover opts\<rparr>"
| "toggle_option opts Dialogue = opts\<lparr>includeDialogue := \<not> includeDialogue opts\<rparr>"
| "toggle_option opts Thumbnail = opts\<lparr>includeThumbnail := \<not> includeThumbnail opts\<rparr>"
| "toggle_option opts CaptionsTags = opts\<lparr>includeCaptionsTags := \<not> includeCaptionsTags opts\<rparr>"
| "toggle_option opts Music = opts\<lparr>includeMusic := \<not> includeMusic opts\<rparr>"

text \<open>The scene-count input's \<open>onChange\<close>: \<open>parseInt(e.target.value || "5", 10)\<close>.\<close>

definition scene_count_input :: "string \<Rightarrow> js_num" where
  "scene_count_input v = js_parse_int (if v = [] then ''5'' else v)"

inductive ui_step :: "ui_state \<Rightarrow> ui_state \<Rightarrow> bool" where
  set_topic: "ui_step s (s\<lparr>ui_topic := v\<rparr>)"
| set_scene_count: "ui_step s (s\<lparr>ui_sceneCount := scene_count_input v\<rparr>)"
| toggle: "ui_step s (s\<lparr>ui_options := toggle_option (ui_options s) k\<rparr>)"
| copy_click: "ui_output s = Some out \<Longrightarrow>
     ui_step s (s\<lparr>ui_writes := ui_writes s @ [copy_text out]\<rparr>)"
| write_resolved: "i < length (ui_writes s) \<Longrightarrow>
     ui_step s (s\<lparr>ui_clipboard := Some (ui_writes s ! i),
                 ui_writes := take i (ui_writes s) @ drop (Suc i) (ui_writes s),
                 ui_copied := True, ui_timers := Suc (ui_timers s)\<rparr>)"
| write_rejected: "i < length (ui_writes s) \<Longrightarrow>
     ui_step s (s\<lparr>ui_writes := take i (ui_writes s) @ drop (Suc i) (ui_writes s)\<rparr>)"
| reset_fires: "0 < ui_timers s \<Longrightarrow>
     ui_step s (s\<lparr>ui_copied := False, ui_timers := ui_timers s - 1\<rparr>)"

inductive ui_reachable :: "ui_state \<Rightarrow> bool" where
  init: "ui_reachable ui_init"
| step: "ui_reachable s \<Longrightarrow> ui_step s t \<Longrightarrow> ui_reachable t"

text \<open>The copy button's label (line 306).\<close>

definition copy_button_label :: "ui_state \<Rightarrow> string" where
  "copy_button_label s = (if ui_copied s then ''Copied!'' else ''Copy Full Prompt'')"

text \<open>A text that \<open>copyAll\<close> can produce: the export of some non-empty result.\<close>

definition exported :: "string \<Rightarrow> bool" where
  "exported w \<longleftrightarrow> (\<exists>topic n opts out. generate topic n opts = Some out \<and> w = copy_text out)"

definition ui_inv :: "ui_state \<Rightarrow> bool" where
  "ui_inv s \<longleftrightarrow>
     (ui_copied s \<longrightarrow> 0 < ui_timers s) \<and>
     (\<forall>w\<in>set (ui_writes s). exported w) \<and>
     (\<forall>w. ui_clipboard s = Some w \<longrightarrow> exported w)"

text \<open>The same events as an executable handler: \<open>ui_handle s e\<close> is the state after the
  event \<open>e\<close>, or \<open>None\<close> when \<open>e\<close> cannot occur in \<open>s\<close>: the copy button is disabled
  without a result (line 305, and \<open>copyAll\<close> returns at line 221), a write can only
  settle while it is pending, a timer only fire while it is scheduled.\<close>

datatype ui_event =
    SetTopic string
  | SetSceneCount string
  | ToggleOption addon_key
  | CopyClick
  | WriteResolved nat
  | WriteRejected nat
  | ResetFires

fun ui_handle :: "ui_state \<Rightarrow> ui_event \<Rightarrow> ui_state option" where
  "ui_handle s (SetTopic v) = Some (s\<lparr>ui_topic := v\<rparr>)"
| "ui_handle s (SetSceneCount v) = Some (s\<lparr>ui_sceneCount := scene_count_input v\<rparr>)"
| "ui_handle s (ToggleOption k) = Some (s\<lparr>ui_options := toggle_option (ui_options s) k\<rparr>)"
| "ui_handle s CopyClick =
     (case ui_output s of
        None \<Rightarrow> None
      | Some out \<Rightarrow> Some (s\<lparr>ui_writes := ui_writes s @ [copy_text out]\<rparr>))"
| "ui_handle s (WriteResolved i) =
     (if i < length (ui_writes s)
      then Some (s\<lparr>ui_clipboard := Some (ui_writes s ! i),
                   ui_writes := take i (ui_writes s) @ drop (Suc i) (ui_writes s),
                   ui_copied := True, ui_timers := Suc (ui_timers s)\<rparr>)
      else None)"
| "ui_handle s (WriteRejected i) =
     (if i < length (ui_writes s)
      then Some (s\<lparr>ui_writes := take i (ui_writes s) @ drop (Suc i) (ui_writes s)\<rparr>)
      else None)"
| "ui_handle s ResetFires =
     (if 0 < ui_timers s then Some (s\<lparr>ui_copied := False, ui_timers := ui_timers s - 1\<rparr>) else None)"

text \<open>A sequence of events, applied in order.\<close>

fun ui_run :: "ui_state \<Rightarrow> ui_event list \<Rightarrow> ui_state option" where
  "ui_run s [] = Some s"
| "ui_run s (e # es) = (case ui_handle s e of None \<Rightarrow> None | Some t \<Rightarrow> ui_run t es)"

text \<open>The events the browser delivers on its own (promise settlement, timers), and the
  work they still have to do: a pending write settles once and may schedule one timer.\<close>

fun ui_callback :: "ui_event \<Rightarrow> bool" where
  "ui_callback (WriteResolved i) = True"
| "ui_callback (WriteRejected i) = True"
| "ui_callback ResetFires = True"
| "ui_callback _ = False"

definition ui_pending :: "ui_state \<Rightarrow> nat" where
  "ui_pending s = 2 * length (ui_writes s) + ui_timers s"

inductive_cases ui_step_cases: "ui_step s t"

lemma ui_inv_init: "ui_inv ui_init"
  by (simp add: ui_inv_def ui_init_def)

lemma set_remove_nth: "set (take i xs @ drop (Suc i) xs) \<subseteq> set xs"
  by (auto dest: in_set_takeD in_set_dropD)

lemma ui_step_inv: "ui_step s t \<Longrightarrow> ui_inv s \<Longrightarrow> ui_inv t"
proof (induction rule: ui_step.induct)
  case (copy_click s out)
  then have "exported (copy_text out)"
    unfolding exported_def ui_output_def by blast
  with copy_click.prems show ?case by (simp add: ui_inv_def)
next
  case (write_resolved i s)
  then have "exported (ui_writes s ! i)" by (simp add: ui_inv_def)
  with write_resolved.prems show ?case
    using set_remove_nth [of i "ui_writes s"] by (auto simp: ui_inv_def)
next
  case (write_rejected i s)
  then show ?case using set_remove_nth [of i "ui_writes s"] by (auto simp: ui_inv_def)
qed (simp_all add: ui_inv_def)

lemma ui_reachable_inv: "ui_reachable s \<Longrightarrow> ui_inv s"
  by (induction rule: ui_reachable.induct) (simp_all add: ui_inv_init ui_step_inv)

lemma ui_handle_step: "ui_handle s e = Some t \<Longrightarrow> ui_step s t"
proof (cases e)
  case ResetFires
  moreover assume "ui_handle s e = Some t"
  ultimately show ?thesis using ui_step.reset_fires [of s] by (simp split: if_splits)
qed (auto simp: ui_step.intros split: if_splits option.splits)

lemma ui_run_reachable: "ui_reachable s \<Longrightarrow> ui_run s es = Some t \<Longrightarrow> ui_reachable t"
proof (induction es arbitrary: s)
  case (Cons e es)
  then obtain s' where h: "ui_handle s e = Some s'" and r: "ui_run s' es = Some t"
    by (auto split: option.splits)
  have "ui_reachable s'" using Cons.prems(1) ui_handle_step [OF h] by (rule ui_reachable.step)
  then show ?case using r by (rule Cons.IH)
qed simp

lemma ui_callback_decreases:
  "ui_callback e \<Longrightarrow> ui_handle s e = Some t \<Longrightarrow> ui_pending t < ui_pending s"
  by (cases e) (auto simp: ui_pending_def split: if_splits)

lemma ui_run_append:
  "ui_run s (xs @ ys) = (case ui_run s xs of None \<Rightarrow> None | Some t \<Rightarrow> ui_run t ys)"
  by (induction xs arbitrary: s) (simp_all split: option.splits)

lemma ui_run_rejects:
  "ui_run s (replicate (length (ui_writes s)) (WriteRejected 0)) = Some (s\<lparr>ui_writes := []\<rparr>)"
proof (induction "ui_writes s" arbitrary: s)
  case Nil
  then show ?case by simp
next
  case (Cons w ws)
  then have "ui_handle s (WriteRejected 0) = Some (s\<lparr>ui_writes := ws\<rparr>)"
    by (simp add: Cons.hyps(2) [symmetric])
  moreover have "ui_run (s\<lparr>ui_writes := ws\<rparr>) (replicate (length ws) (WriteRejected 0))
      = Some (s\<lparr>ui_writes := []\<rparr>)"
    using Cons.hyps(1) [of "s\<lparr>ui_writes := ws\<rparr>"] by simp
  ultimately show ?case by (simp flip: Cons.hyps(2))
qed

lemma ui_run_resets:
  "0 < ui_timers s \<Longrightarrow>
   ui_run s (replicate (ui_timers s) ResetFires) = Some (s\<lparr>ui_copied := False, ui_timers := 0\<rparr>)"
proof (induction "ui_timers s" arbitrary: s)
  case 0
  then show ?case by simp
next
  case (Suc m)
  show ?case
  proof (cases m)
    case 0
    then show ?thesis using Suc.hyps(2) by (simp flip: Suc.hyps(2))
  next
    case (Suc k)
    let ?s' = "s\<lparr>ui_copied := False, ui_timers := m\<rparr>"
    have "ui_run ?s' (replicate m ResetFires) = Some (?s'\<lparr>ui_copied := False, ui_timers := 0\<rparr>)"
      using Suc.hyps(1) [of ?s'] Suc by simp
    then show ?thesis by (simp flip: Suc.hyps(2))
  qed
qed

text \<open>C19: the clipboard only ever receives the export of a non-empty result: every text
  the component has written there is \<open>copy_text\<close> of an output of \<open>generate\<close>, since
  \<open>copyAll\<close> returns early when there is no output.\<close>

theorem ui_clipboard_exports:
  "ui_reachable s \<Longrightarrow> ui_clipboard s = Some w \<Longrightarrow>
   \<exists>topic n opts out. generate topic n opts = Some out \<and> w = copy_text out"
  using ui_reachable_inv by (auto simp: ui_inv_def exported_def)

text \<open>C20: \<open>Copied!\<close> is shown only while a reset timer is pending.\<close>

theorem ui_copied_pending_reset:
  "ui_reachable s \<Longrightarrow> ui_copied s \<Longrightarrow> 0 < ui_timers s"
  using ui_reachable_inv by (simp add: ui_inv_def)

lemma ui_reset_all:
  "ui_reachable s \<Longrightarrow> ui_timers s = m \<Longrightarrow>
   \<exists>t. ui_step\<^sup>*\<^sup>* s t \<and> \<not> ui_copied t \<and> ui_timers t = 0 \<and> ui_topic t = ui_topic s
       \<and> ui_clipboard t = ui_clipboard s"
proof (induction m arbitrary: s)
  case 0
  then have "\<not> ui_copied s" using ui_reachable_inv [OF "0.prems"(1)] by (simp add: ui_inv_def)
  with "0.prems" show ?case by blast
next
  case (Suc m)
  let ?s' = "s\<lparr>ui_copied := False, ui_timers := ui_timers s - 1\<rparr>"
  have st: "ui_step s ?s'" using Suc.prems by (intro ui_step.reset_fires) simp
  have "ui_reachable ?s'" using Suc.prems(1) st by (rule ui_reachable.step)
  then obtain t where "ui_step\<^sup>*\<^sup>* ?s' t" "\<not> ui_copied t" "ui_timers t = 0"
      "ui_topic t = ui_topic s" "ui_clipboard t = ui_clipboard s"
    using Suc.IH [of ?s'] Suc.prems(2) by auto
  with st show ?case by (meson converse_rtranclp_into_rtranclp)
qed

text \<open>C21: \<open>Copied!\<close> always goes away: from every reachable state the pending
  resets can fire, leading to a state with no reset pending, the label back to
  \<open>Copy Full Prompt\<close>, and the topic and the clipboard as they were.\<close>

theorem ui_copied_eventually_clears:
  "ui_reachable s \<Longrightarrow>
   \<exists>t. ui_step\<^sup>*\<^sup>* s t \<and> \<not> ui_copied t \<and> ui_timers t = 0 \<and> ui_clipboard t = ui_clipboard s"
  using ui_reset_all by blast

text \<open>C22: a checkbox toggles its own flag and no other, and toggling twice restores the
  flags.\<close>

theorem toggle_option_flip:
  "option_flag (toggle_option opts k) k' = (if k' = k then \<not> option_flag opts k else option_flag opts k') \<and>
   toggle_option (toggle_option opts k) k = opts"
  by (cases k; cases k') simp_all

lemma ui_copy_run:
  assumes g: "generate ''rain'' (JNum 5) default_options = Some out"
  shows "ui_reachable (ui_init\<lparr>ui_topic := ''rain'', ui_copied := True, ui_timers := 1,
           ui_clipboard := Some (copy_text out)\<rparr>)"
proof -
  let ?a = "ui_init\<lparr>ui_topic := ''rain''\<rparr>"
  let ?b = "?a\<lparr>ui_writes := ui_writes ?a @ [copy_text out]\<rparr>"
  have ra: "ui_reachable ?a" by (rule ui_reachable.step [OF ui_reachable.init ui_step.set_topic])
  have "ui_output ?a = Some out" using g by (simp add: ui_output_def ui_init_def)
  then have rb: "ui_reachable ?b" by (rule ui_reachable.step [OF ra ui_step.copy_click])
  have "ui_step ?b (?b\<lparr>ui_clipboard := Some (ui_writes ?b ! 0),
          ui_writes := take 0 (ui_writes ?b) @ drop (Suc 0) (ui_writes ?b),
          ui_copied := True, ui_timers := Suc (ui_timers ?b)\<rparr>)"
    by (rule ui_step.write_resolved) (simp add: ui_init_def)
  with rb have "ui_reachable (?b\<lparr>ui_clipboard := Some (ui_writes ?b ! 0),
          ui_writes := take 0 (ui_writes ?b) @ drop (Suc 0) (ui_writes ?b),
          ui_copied := True, ui_timers := Suc (ui_timers ?b)\<rparr>)"
    by (rule ui_reachable.step)
  then show ?thesis by (simp add: ui_init_def)
qed

theorem ui_clipboard_exports_witness:
  "\<exists>s w. ui_reachable s \<and> ui_clipboard s = Some w \<and>
     (\<exists>topic n opts out. generate topic n opts = Some out \<and> w = copy_text out)"
proof -
  have ne: "js_trim ''rain'' \<noteq> []" by code_simp
  obtain out where g: "generate ''rain'' (JNum 5) default_options = Some out"
    using generate_Some [OF ne] by blast
  let ?s = "ui_init\<lparr>ui_topic := ''rain'', ui_copied := True, ui_timers := 1,
              ui_clipboard := Some (copy_text out)\<rparr>"
  have r: "ui_reachable ?s" using g by (rule ui_copy_run)
  have c: "ui_clipboard ?s = Some (copy_text out)" by simp
  show ?thesis using r c ui_clipboard_exports [OF r c] by blast
qed

theorem ui_copied_pending_reset_witness:
  "\<exists>s. ui_reachable s \<and> ui_copied s \<and> 0 < ui_timers s"
proof -
  have ne: "js_trim ''rain'' \<noteq> []" by code_simp
  obtain out where g: "generate ''rain'' (JNum 5) default_options = Some out"
    using generate_Some [OF ne] by blast
  let ?s = "ui_init\<lparr>ui_topic := ''rain'', ui_copied := True, ui_timers := 1,
              ui_clipboard := Some (copy_text out)\<rparr>"
  have r: "ui_reachable ?s" using g by (rule ui_copy_run)
  have c: "ui_copied ?s" by simp
  show ?thesis using r c ui_copied_pending_reset [OF r c] by blast
qed

theorem ui_copied_eventually_clears_witness:
  "\<exists>s. ui_reachable s \<and> ui_copied s \<and>
     (\<exists>t. ui_step\<^sup>*\<^sup>* s t \<and> \<not> ui_copied t \<and> ui_timers t = 0 \<and> ui_clipboard t = ui_clipboard s)"
proof -
  have ne: "js_trim ''rain'' \<noteq> []" by code_simp
  obtain out where g: "generate ''rain'' (JNum 5) default_options = Some out"
    using generate_Some [OF ne] by blast
  let ?s = "ui_init\<lparr>ui_topic := ''rain'', ui_copied := True, ui_timers := 1,
              ui_clipboard := Some (copy_text out)\<rparr>"
  have r: "ui_reachable ?s" using g by (rule ui_copy_run)
  have c: "ui_copied ?s" by simp
  obtain t where "ui_step\<^sup>*\<^sup>* ?s t" "\<not> ui_copied t" "ui_timers t = 0" "ui_clipboard t = ui_clipboard ?s"
    using ui_copied_eventually_clears [OF r] by blast
  with r c show ?thesis by blast
qed

text \<open>C25: the callbacks terminate: the browser cannot deliver an infinite sequence of
  write settlements and timer firings without a user event, since each of them
  decreases the pending work \<open>ui_pending\<close>.\<close>

theorem ui_callbacks_terminate:
  "wf {(t, s). \<exists>e. ui_callback e \<and> ui_handle s e = Some t}"
  by (rule wf_subset [OF wf_measure [of ui_pending]]) (auto dest: ui_callback_decreases)

text \<open>C27: a run of callbacks is at most as long as the pending work of the state it starts
  from (two per pending write, one per scheduled reset), and uses it up.\<close>

theorem ui_callbacks_bound:
  "list_all ui_callback es \<Longrightarrow> ui_run s es = Some t \<Longrightarrow> length es + ui_pending t \<le> ui_pending s"
proof (induction es arbitrary: s)
  case (Cons e es)
  then obtain s' where h: "ui_handle s e = Some s'" and r: "ui_run s' es = Some t"
    by (auto split: option.splits)
  have "ui_callback e" using Cons.prems(1) by simp
  then have "ui_pending s' < ui_pending s" using h by (rule ui_callback_decreases)
  with Cons.IH [of s'] Cons.prems(1) r show ?case by simp
qed simp

text \<open>The early reset (see the findings): a reset scheduled by an earlier copy clears
  \<open>Copied!\<close> of a later one: after two
  copies whose writes succeed, the first timer turns the button back to
  \<open>Copy Full Prompt\<close> while the second copy's
  reset is still pending, since \<open>copyAll\<close> never cancels the earlier \<open>setTimeout\<close>.\<close>

lemma ui_early_reset:
  "\<exists>t. ui_run ui_init [SetTopic ''rain'', CopyClick, WriteResolved 0, CopyClick, WriteResolved 0, ResetFires]
     = Some t \<and> ui_reachable t \<and> copy_button_label t = ''Copy Full Prompt'' \<and> ui_timers t = 1 \<and>
       ui_writes t = []"
proof -
  have ne: "js_trim ''rain'' \<noteq> []" by code_simp
  obtain out where g: "generate ''rain'' (JNum 5) default_options = Some out"
    using generate_Some [OF ne] by blast
  let ?es = "[SetTopic ''rain'', CopyClick, WriteResolved 0, CopyClick, WriteResolved 0, ResetFires]"
  have "\<exists>t. ui_run ui_init ?es = Some t \<and> \<not> ui_copied t \<and> ui_timers t = 1 \<and> ui_writes t = []"
    using g by (simp add: ui_output_def ui_init_def)
  then obtain t where r: "ui_run ui_init ?es = Some t"
      and p: "\<not> ui_copied t" "ui_timers t = 1" "ui_writes t = []" by blast
  show ?thesis using r p ui_run_reachable [OF ui_reachable.init r] by (simp add: copy_button_label_def)
qed

text \<open>Unordered writes (see the findings): nothing orders the clipboard writes: when the
  write of a later copy settles
  first, the clipboard ends with the text of the earlier topic, not the export of the
  result on screen.\<close>

lemma ui_stale_clipboard:
  "\<exists>t out. ui_run ui_init [SetTopic ''rain'', CopyClick, SetTopic ''snow'', CopyClick,
                           WriteResolved 1, WriteResolved 0] = Some t \<and>
     ui_reachable t \<and> ui_output t = Some out \<and> ui_clipboard t \<noteq> Some (copy_text out)"
proof -
  have ne: "js_trim ''rain'' \<noteq> []" "js_trim ''snow'' \<noteq> []" by code_simp+
  obtain r where gr: "generate ''rain'' (JNum 5) default_options = Some r"
    using generate_Some [OF ne(1)] by blast
  obtain w where gw: "generate ''snow'' (JNum 5) default_options = Some w"
    using generate_Some [OF ne(2)] by blast
  have tt: "toTitleCase ''rain'' = ''Rain''" "toTitleCase ''snow'' = ''Snow''" by code_simp+
  obtain p where p: "copy_text r = ''1) Video Concept\<newline>Title: Rain'' @ p"
    using copy_text_prefix [OF gr] generate_SomeD [OF gr] tt(1) by (auto simp: prefix_def)
  obtain q where q: "copy_text w = ''1) Video Concept\<newline>Title: Snow'' @ q"
    using copy_text_prefix [OF gw] generate_SomeD [OF gw] tt(2) by (auto simp: prefix_def)
  have d: "copy_text r \<noteq> copy_text w" by (simp add: p q)
  let ?es = "[SetTopic ''rain'', CopyClick, SetTopic ''snow'', CopyClick, WriteResolved 1, WriteResolved 0]"
  have "\<exists>t. ui_run ui_init ?es = Some t \<and> ui_output t = Some w \<and> ui_clipboard t \<noteq> Some (copy_text w)"
    using d gr gw by (simp add: ui_output_def ui_init_def)
  then obtain t where r: "ui_run ui_init ?es = Some t"
      and p: "ui_output t = Some w" "ui_clipboard t \<noteq> Some (copy_text w)" by blast
  show ?thesis using r p ui_run_reachable [OF ui_reachable.init r] by blast
qed

text \<open>C28: the scene-count field shows \<open>String(sceneCount)\<close> (\<open>value={sceneCount}\<close>, line 289)
  and its \<open>onChange\<close> parses the text back: re-entering the displayed count leaves the
  state unchanged, for every safe integer (the range where the number is exact).\<close>

theorem scene_count_display_roundtrip:
  "\<bar>i\<bar> < 2 ^ 53 \<Longrightarrow> ui_sceneCount s = JNum i \<Longrightarrow>
   ui_handle s (SetSceneCount (js_int_str i)) = Some s"
proof -
  assume "ui_sceneCount s = JNum i"
  moreover have "js_int_str i \<noteq> []" by (simp add: js_int_str_def)
  ultimately show ?thesis by (simp add: scene_count_input_def js_parse_int_int_str)
qed

theorem ui_callbacks_bound_witness:
  "list_all ui_callback [WriteResolved 0, ResetFires] \<and>
   ui_run (ui_init\<lparr>ui_writes := [''x'']\<rparr>) [WriteResolved 0, ResetFires] =
     Some (ui_init\<lparr>ui_clipboard := Some ''x''\<rparr>) \<and>
   length [WriteResolved 0, ResetFires] + ui_pending (ui_init\<lparr>ui_clipboard := Some ''x''\<rparr>)
     \<le> ui_pending (ui_init\<lparr>ui_writes := [''x'']\<rparr>)"
proof -
  have c: "list_all ui_callback [WriteResolved 0, ResetFires]" by simp
  have r: "ui_run (ui_init\<lparr>ui_writes := [''x'']\<rparr>) [WriteResolved 0, ResetFires] =
     Some (ui_init\<lparr>ui_clipboard := Some ''x''\<rparr>)" by (simp add: ui_init_def)
  show ?thesis using c r ui_callbacks_bound [OF c r] by simp
qed

theorem scene_count_display_roundtrip_witness:
  "\<bar>-4 :: int\<bar> < 2 ^ 53 \<and> ui_sceneCount (ui_init\<lparr>ui_sceneCount := JNum (-4)\<rparr>) = JNum (-4) \<and>
   ui_handle (ui_init\<lparr>ui_sceneCount := JNum (-4)\<rparr>) (SetSceneCount (js_int_str (-4))) =
     Some (ui_init\<lparr>ui_sceneCount := JNum (-4)\<rparr>)"
proof -
  have b: "\<bar>-4 :: int\<bar> < 2 ^ 53" by simp
  have v: "ui_sceneCount (ui_init\<lparr>ui_sceneCount := JNum (-4)\<rparr>) = JNum (-4)" by simp
  show ?thesis using b v scene_count_display_roundtrip [OF b v] by simp
qed

text \<open>C26: the callbacks can always settle: from every state some run of callbacks
  (rejecting the pending writes, then firing the scheduled resets) reaches a state with
  no pending write and no scheduled reset, with the topic and the clipboard unchanged.\<close>

theorem ui_callbacks_drain:
  "\<exists>es t. list_all ui_callback es \<and> ui_run s es = Some t \<and> ui_writes t = [] \<and> ui_timers t = 0 \<and>
     ui_topic t = ui_topic s \<and> ui_clipboard t = ui_clipboard s"
proof -
  let ?r = "replicate (length (ui_writes s)) (WriteRejected 0)"
  let ?s1 = "s\<lparr>ui_writes := []\<rparr>"
  have r: "ui_run s ?r = Some ?s1" by (rule ui_run_rejects)
  show ?thesis
  proof (cases "ui_timers s = 0")
    case True
    then show ?thesis using r by (intro exI [of _ ?r] exI [of _ ?s1]) (simp add: list_all_iff)
  next
    case False
    let ?f = "replicate (ui_timers s) ResetFires"
    have "ui_run ?s1 ?f = Some (?s1\<lparr>ui_copied := False, ui_timers := 0\<rparr>)"
      using ui_run_resets [of ?s1] False by simp
    then show ?thesis using r
      by (intro exI [of _ "?r @ ?f"] exI [of _ "?s1\<lparr>ui_copied := False, ui_timers := 0\<rparr>"])
         (simp add: ui_run_append list_all_iff set_replicate_conv_if)
  qed
qed

end
