(* ===== verification/Spec2Isabelle.thy ===== *)
theory Spec2Isabelle
  imports UI
begin

text \<open>
  \<^bold>\<open>A verification of the cinematic prompt builder.\<close>

  The program is one React component, src/app/components/PromptGenerator.tsx; the two
  other sources (src/app/page.tsx, src/app/layout.tsx) are static page layout and
  document metadata and are not modelled.  The component turns a free-text topic, a
  scene count and five add-on flags into a structured brief.  Its parts, leaves first,
  and the theory that models each:

  \<^item> JavaScript built-ins (theory \<open>Prelude\<close>).  \<open>String.prototype.trim\<close>,
    \<open>split(/\s+/)\<close>, \<open>join\<close>, \<open>replace(/\s+/g, "")\<close>, \<open>toLowerCase\<close>,
    \<open>charAt(0).toUpperCase()\<close>, \<open>RegExp.prototype.test\<close> on an alternation of
    literals, \<open>parseInt(_, 10)\<close>, \<open>Math.min\<close>/\<open>Math.max\<close> with \<open>NaN\<close>, the
    \<open>ToLength\<close> of \<open>Array.from\<close>, number-to-string (\<open>js_nat_str\<close>,
    \<open>js_int_str\<close>) and \<open>split(",")[0]\<close>, each an
    executable function over \<open>char list\<close>.  A \<open>char\<close> is a UTF-16 code unit of the
    Latin-1 range; whitespace is ECMAScript's \<open>\s\<close> on that range (9--13, 32, 160).
    A number is \<open>js_num\<close>: an \<open>int\<close> or \<open>JNaN\<close>.  The shared lemmas: the regular
    expression test is substring search, splitting a single-spaced join of words gives
    the words back, trim is idempotent and leaves no whitespace at either end, and
    \<open>parseInt\<close> reads back the decimal string of every integer.
  \<^item> Normalizer (\<open>Normalizer\<close>): \<open>toTitleCase\<close> (lines 41--47) as \<open>toTitleCase\<close> and
    its \<open>map\<close> callback \<open>capitalize_word\<close>.  Lemmas: idempotence, the normal form
    (empty exactly for a blank topic, otherwise the topic's words, each capitalised,
    joined by single spaces), and that title-casing changes letters only.
  \<^item> MoodClassifier and StyleClassifier (\<open>Classifier\<close>): \<open>inferMood\<close> (49--56) and
    \<open>inferStyle\<close> (58--66) as the if-chains of the code.  The abstract specification is
    the spec's ordered rule table (\<open>mood_rules\<close>, \<open>style_rules\<close>) read by
    \<open>first_match\<close>; the lemmas prove the refinement (first match wins), the priority
    of \<open>neon\<close>, and that the \<open>neon\<close> alternative of the third mood rule is dead.
  \<^item> SceneComposer (\<open>Scenes\<close>): \<open>buildScenes\<close> (68--124) with the catalog
    \<open>scene_templates\<close> (70--121) and the spread \<open>with_index\<close> (123); a scene is the
    record \<open>scene\<close> of \<open>GeneratedOutput["scenes"]\<close>.  Lemmas: the length is the
    \<open>ToLength\<close> of the count, scene \<open>i\<close> is template \<open>i mod 5\<close> with the title in its
    setting only, the indices are \<open>1..N\<close>, a smaller count gives a prefix.
  \<^item> PromptAssembler (\<open>Prompt\<close>): \<open>buildFullPrompt\<close> (126--146) and its per-scene
    line \<open>scene_line\<close> (128--135).  The reader \<open>split_lines\<close> (\<open>split("\n")\<close>) states
    the line structure as a round trip.
  \<^item> AddOnComposer (\<open>AddOns\<close>): \<open>buildAddOns\<close> (148--185) over the records
    \<open>options\<close> (\<open>OptionalAddOns\<close>) and \<open>addons\<close> (absent keys as \<open>None\<close>).  Lemmas:
    the presence law, the literal blocks, and that the hashtag is the topic without
    whitespace in lower case.
  \<^item> Orchestrator (\<open>Orchestrator\<close>): the \<open>useMemo\<close> callback (198--216) as
    \<open>generate\<close>, returning \<open>generated_output option\<close> (\<open>None\<close> for \<open>null\<close>).  Lemmas:
    the empty sentinel, the clamped scene count, zero scenes for \<open>NaN\<close>, the prompt's
    lines, the shape of the one-line summary.
  \<^item> Export (\<open>Export\<close>): the clipboard text of \<open>copyAll\<close> (220--254) as
    \<open>copy_text\<close> and the text content of the output panel (315--386) as
    \<open>render_panel\<close>, with \<open>scene_div\<close> per scene and \<open>render_addons\<close> for the add-on
    part.  Lemmas: the copied text has no blank separator lines between its first
    sections, ends with the full prompt verbatim and then, exactly when an add-on is on,
    two blank lines and the add-on section in the fixed order; the panel lacks the
    add-on heading exactly when the voiceover is off and another add-on is on; the panel
    shows a blank line and colon-less scene headings, so its text is never the copy.
  \<^item> Component state (\<open>UI\<close>): the \<open>useState\<close> hooks, the input handlers (276, 290,
    296--300, \<open>updateOption\<close> 261--263), \<open>copyAll\<close>'s asynchronous clipboard write
    and its \<open>setTimeout\<close> reset, as the inductive relation \<open>ui_step\<close> on the record
    \<open>ui_state\<close>, with \<open>ui_reachable\<close> from \<open>ui_init\<close>; the button label (306) is
    \<open>copy_button_label\<close>.  A click computes the text at
    once and leaves a pending write; writes resolve or reject later, in any order, with
    other events in between.  Lemmas, by rule induction over an invariant
    (\<open>ui_inv\<close>): the clipboard only receives exports of non-empty results,
    \<open>Copied!\<close> is shown only while a reset is pending and can always be cleared, a
    checkbox flips its own flag only.  The same events form the datatype \<open>ui_event\<close> with the
    executable handler \<open>ui_handle\<close> (\<open>None\<close> for an event that cannot occur, such as
    a click on the disabled copy button) and runs \<open>ui_run\<close> of event sequences.
    Every event the handler accepts is a step of \<open>ui_step\<close>, so runs stay reachable.
    Lemmas: the browser's callbacks terminate,
    since \<open>ui_pending\<close> (two per pending write, one per scheduled reset) decreases with
    each, a run of callbacks is bounded by it, and some run of callbacks always empties
    it; re-entering the displayed scene count
    changes nothing.  Two concrete runs, the evidence of two findings, show what the
    code does not prevent: the timer of an earlier copy hides the \<open>Copied!\<close> of a
    later one, and writes that settle out of order leave an earlier topic's text on the
    clipboard.

  How they interact: the state's topic, count and flags go to \<open>generate\<close>, which calls
  the Normalizer, both classifiers, \<open>buildScenes\<close>, \<open>buildFullPrompt\<close> and
  \<open>buildAddOns\<close> on the trimmed topic; the result is shown by the panel and exported by
  \<open>copyAll\<close>.  The property that spans components is stated below: the panel
  (\<open>Export\<close>) and the copy button (\<open>UI\<close>) agree on when there is a result.

  No loop of the program can fail to terminate: every recursion of the model is
  structural or has a length measure (\<open>js_split_ws\<close>) or a \<open>div\<close> measure
  (\<open>js_nat_str\<close>), so no fuel is needed, and every definition evaluates by \<open>simp\<close> or
  \<open>code_simp\<close>, as the witnesses do.  The only unbounded behaviour is the event loop of
  the page, which runs as long as the user acts; what terminates there is the part the
  browser drives alone, which the well-foundedness of the callback relation states.

  Not modelled: class names, inline styles, spacers and label texts of the JSX
  (presentation without behaviour; the panel's text content is modelled); page.tsx and
  layout.tsx, static markup and metadata constants with no logic and no input; the time
  of the 1500 ms reset (timers fire in any order relative to other events, which covers
  every timing); code units outside
  Latin-1 and the two Latin-1 letters whose upper case lies outside it; numbers that
  \<open>parseInt\<close> cannot produce (fractions) and \<open>Infinity\<close> from very long digit strings,
  which the clamp maps to 10 as it does every large integer.
\<close>

text \<open>C29: the output panel and the copy button agree: the panel shows its placeholder
  exactly when the copy button is disabled, which is exactly when the trimmed topic is
  empty.\<close>

theorem panel_placeholder_iff_copy_disabled:
  "(render_panel (ui_output s) = panel_placeholder \<longleftrightarrow> ui_handle s CopyClick = None) \<and>
   (ui_handle s CopyClick = None \<longleftrightarrow> js_trim (ui_topic s) = [])"
proof (cases "ui_output s")
  case None
  then have "js_trim (ui_topic s) = []"
    using generate_Some [of "ui_topic s" "ui_sceneCount s" "ui_options s"] by (auto simp: ui_output_def)
  with None show ?thesis by (simp add: render_panel_def)
next
  case (Some out)
  then have "js_trim (ui_topic s) \<noteq> []" using generate_SomeD by (simp add: ui_output_def)
  with Some show ?thesis by (simp add: render_panel_def panel_placeholder_def)
qed

end
